theory Spec2Isabelle
  imports Complex_Main "HOL-Library.AList" "HOL-Library.Log_Nat"
begin

section \<open>Values of the configuration\<close>

text \<open>
  A Python float is a binary64 number. It is modelled by the rational it denotes, or one of
  the three special values. The two float operations of the source, \<open>nb_frames / time\<close> and
  \<open>int(...)\<close>, are modelled exactly: the quotient is rounded to the nearest binary64 number
  (ties to even), the conversion to \<open>int\<close> truncates toward zero.
\<close>

datatype pyfloat = Finite rat | PosInf | NegInf | NaN

text \<open>
  The configuration is a Python dict from strings to JSON values, as \<open>json.load\<close> builds
  them. A dict is an association list in insertion order. A string is the list of its bytes
  in UTF-8.
\<close>

datatype json =
    JNull
  | JBool bool
  | JInt int
  | JFloat pyfloat
  | JStr string
  | JArr "json list"
  | JObj "(string \<times> json) list"

type_synonym pydict = "(string \<times> json) list"

text \<open>
  Exceptions. \<open>SystemExit n\<close> is \<open>sys.exit(n)\<close>. \<open>Unmodelled\<close> marks the few places where a
  configuration value of an unexpected type sends Python down a path that this development
  does not follow (the \<open>repr\<close> of a float or a container inside an f-string, an integer
  used as a file descriptor by \<open>os.path\<close>, a product of an \<open>int\<close> and a sequence or a
  float, \<open>dict.update\<close> from a sequence of pairs).
\<close>

datatype exn =
    SystemExit int
  | KeyError string
  | TypeError
  | ValueError
  | OverflowError
  | ZeroDivisionError
  | FileNotFoundError
  | FileExistsError
  | IsADirectoryError
  | NotADirectoryError
  | JSONDecodeError
  | GetoptError
  | FFmpegError
  | OSError
  | Unmodelled

text \<open>
  The status with which the interpreter leaves: the argument of \<open>sys.exit\<close> (of which the
  operating system keeps the low byte), or 1 after an uncaught exception.
\<close>

fun exit_code :: "exn \<Rightarrow> int option" where
  "exit_code (SystemExit n) = Some n"
| "exit_code Unmodelled = None"
| "exit_code _ = Some 1"

section \<open>The world: files and the order of effects\<close>

text \<open>
  The file system maps a path, as the program writes it, to a regular file with its content
  or to a directory. Paths are compared as strings: there are no links, no permissions and
  no normalisation of paths.
\<close>

datatype node = File string | Dir

type_synonym filesystem = "string \<Rightarrow> node option"

text \<open>Every effect of a run is recorded, in order.\<close>

datatype event =
    Print string
  | Makedirs string
  | WriteFile string
  | Probe string
  | RunFFmpeg string

record world =
  fs :: filesystem
  events :: "event list"

text \<open>
  What the program does not contain: the JSON parser, the video probe (the outcome of lines
  95 to 99 of the source on the content of a file), the frames that the filters \<open>scale\<close>
  and \<open>fps\<close> produce from a video (or a failure), and the \<open>repr\<close> of a float.
\<close>

record stream =
  duration :: pyfloat
  width :: int
  height :: int
  nb_frames :: int

record runtime =
  json_load :: "string \<Rightarrow> exn + json"
  ffprobe :: "string \<Rightarrow> exn + stream"
  ffmpeg_frames :: "string \<Rightarrow> int \<Rightarrow> json \<Rightarrow> string list option"
  float_repr :: "pyfloat \<Rightarrow> string"

type_synonym 'a io = "world \<Rightarrow> (exn + 'a) \<times> world"

definition io_return :: "'a \<Rightarrow> 'a io" where
  "io_return x w = (Inr x, w)"

definition io_raise :: "exn \<Rightarrow> 'a io" where
  "io_raise e w = (Inl e, w)"

definition io_lift :: "exn + 'a \<Rightarrow> 'a io" where
  "io_lift r w = (r, w)"

definition io_bind :: "'a io \<Rightarrow> ('a \<Rightarrow> 'b io) \<Rightarrow> 'b io" where
  "io_bind m f w = (case m w of (Inl e, w') \<Rightarrow> (Inl e, w') | (Inr x, w') \<Rightarrow> f x w')"

definition io_then :: "unit io \<Rightarrow> 'b io \<Rightarrow> 'b io" where
  "io_then m k = io_bind m (\<lambda>_. k)"

definition print :: "string \<Rightarrow> unit io" where
  "print s w = (Inr (), w\<lparr>events := events w @ [Print s]\<rparr>)"

definition sys_exit :: "int \<Rightarrow> 'a io" where
  "sys_exit n = io_raise (SystemExit n)"

section \<open>Python primitives\<close>

subsection \<open>Integers and floats as text and as numbers\<close>

fun digits :: "nat \<Rightarrow> string" where
  "digits n = (if n < 10 then [char_of (48 + n)] else digits (n div 10) @ [char_of (48 + n mod 10)])"

declare digits.simps [simp del]

text \<open>A text between apostrophes, as the messages show paths.\<close>

definition quote :: "string \<Rightarrow> string" where
  "quote s = CHR 0x27 # s @ [CHR 0x27]"

definition str_int :: "int \<Rightarrow> string" where
  "str_int i = (if i < 0 then CHR ''-'' # digits (nat (- i)) else digits (nat i))"

definition pow2 :: "int \<Rightarrow> rat" where
  "pow2 e = (if 0 \<le> e then 2 ^ nat e else 1 / 2 ^ nat (- e))"

text \<open>\<open>ilog2 q\<close> is the exponent of the binade of a positive rational.\<close>

definition ilog2 :: "rat \<Rightarrow> int" where
  "ilog2 q =
     (let (p, d) = quotient_of q;
          e = bitlen p - bitlen d
      in if pow2 e \<le> q then e else e - 1)"

definition round_half_even :: "rat \<Rightarrow> int" where
  "round_half_even q =
     (let f = \<lfloor>q\<rfloor>; r = q - of_int f
      in if r < 1 / 2 then f else if 1 / 2 < r then f + 1 else if even f then f else f + 1)"

text \<open>
  Rounding to binary64: 53 bits of precision, least exponent \<open>-1022\<close> (below it the spacing
  stays that of the subnormal numbers), overflow to infinity from \<open>2 ^ 1024\<close>.
\<close>

definition binary64 :: "rat \<Rightarrow> pyfloat" where
  "binary64 x =
     (if x = 0 then Finite 0
      else let a = \<bar>x\<bar>;
               e = max (ilog2 a) (- 1022);
               q = pow2 (e - 52);
               r = of_int (round_half_even (a / q)) * q
           in if pow2 1024 \<le> r then (if x < 0 then NegInf else PosInf)
              else Finite (if x < 0 then - r else r))"

text \<open>\<open>n / x\<close> for an \<open>int\<close> and a \<open>float\<close>: the \<open>int\<close> is converted first.\<close>

definition py_truediv :: "int \<Rightarrow> pyfloat \<Rightarrow> exn + pyfloat" where
  "py_truediv n x =
     (case binary64 (of_int n) of
        Finite a \<Rightarrow>
          (case x of
             Finite d \<Rightarrow> if d = 0 then Inl ZeroDivisionError else Inr (binary64 (a / d))
           | PosInf \<Rightarrow> Inr (Finite 0)
           | NegInf \<Rightarrow> Inr (Finite 0)
           | NaN \<Rightarrow> Inr NaN)
      | _ \<Rightarrow> Inl OverflowError)"

definition truncate :: "rat \<Rightarrow> int" where
  "truncate q = (if 0 \<le> q then \<lfloor>q\<rfloor> else \<lceil>q\<rceil>)"

fun py_int :: "pyfloat \<Rightarrow> exn + int" where
  "py_int (Finite q) = Inr (truncate q)"
| "py_int PosInf = Inl OverflowError"
| "py_int NegInf = Inl OverflowError"
| "py_int NaN = Inl ValueError"

text \<open>\<open>n * v\<close> for an \<open>int\<close> and a value of the configuration.\<close>

fun py_mul :: "int \<Rightarrow> json \<Rightarrow> exn + json" where
  "py_mul n (JInt k) = Inr (JInt (n * k))"
| "py_mul n (JBool b) = Inr (JInt (n * (if b then 1 else 0)))"
| "py_mul n JNull = Inl TypeError"
| "py_mul n (JObj d) = Inl TypeError"
| "py_mul n (JFloat x) = Inl Unmodelled"
| "py_mul n (JStr s) = Inl Unmodelled"
| "py_mul n (JArr xs) = Inl Unmodelled"

subsection \<open>Dicts, subscripts and f-strings\<close>

text \<open>\<open>d[k]\<close> on a dict.\<close>

definition getitem :: "pydict \<Rightarrow> string \<Rightarrow> exn + json" where
  "getitem d k = (case map_of d k of None \<Rightarrow> Inl (KeyError k) | Some v \<Rightarrow> Inr v)"

text \<open>\<open>v[k]\<close> with a string \<open>k\<close> on any value: only a dict accepts it.\<close>

fun subscript :: "json \<Rightarrow> string \<Rightarrow> exn + json" where
  "subscript (JObj d) k = getitem d k"
| "subscript _ k = Inl TypeError"

text \<open>The text of a value inside an f-string.\<close>

fun fmt :: "json \<Rightarrow> exn + string" where
  "fmt (JStr s) = Inr s"
| "fmt (JInt i) = Inr (str_int i)"
| "fmt (JBool b) = Inr (if b then ''True'' else ''False'')"
| "fmt JNull = Inr ''None''"
| "fmt (JFloat x) = Inl Unmodelled"
| "fmt (JArr xs) = Inl Unmodelled"
| "fmt (JObj d) = Inl Unmodelled"

text \<open>
  \<open>dict.update(other)\<close>: every key of \<open>other\<close> is assigned, in order. An existing key keeps
  its place and takes the new value, a new key is appended.
\<close>

definition dict_update :: "pydict \<Rightarrow> pydict \<Rightarrow> pydict" where
  "dict_update d other = fold (\<lambda>(k, v). AList.update k v) other d"

fun configuration_update :: "pydict \<Rightarrow> json \<Rightarrow> exn + pydict" where
  "configuration_update d (JObj other) = Inr (dict_update d other)"
| "configuration_update d JNull = Inl TypeError"
| "configuration_update d (JBool b) = Inl TypeError"
| "configuration_update d (JInt i) = Inl TypeError"
| "configuration_update d (JFloat x) = Inl TypeError"
| "configuration_update d (JStr s) = Inl Unmodelled"
| "configuration_update d (JArr xs) = Inl Unmodelled"

subsection \<open>The file system\<close>

text \<open>A value given to \<open>os.path.exists\<close> or \<open>os.path.isfile\<close> as the path.\<close>

fun os_path_arg :: "json \<Rightarrow> exn + string" where
  "os_path_arg (JStr s) = Inr s"
| "os_path_arg (JInt i) = Inl Unmodelled"
| "os_path_arg (JBool b) = Inl Unmodelled"
| "os_path_arg _ = Inl TypeError"

definition os_path_exists :: "filesystem \<Rightarrow> string \<Rightarrow> bool" where
  "os_path_exists f p = (f p \<noteq> None)"

definition os_path_isfile :: "filesystem \<Rightarrow> string \<Rightarrow> bool" where
  "os_path_isfile f p = (case f p of Some (File c) \<Rightarrow> True | _ \<Rightarrow> False)"

text \<open>The directory that holds a path: the text before its last slash.\<close>

definition parent :: "string \<Rightarrow> string" where
  "parent p = rev (tl (dropWhile (\<lambda>c. c \<noteq> CHR ''/'') (rev p)))"

definition ancestors :: "string \<Rightarrow> string list" where
  "ancestors p = map (\<lambda>i. take i p) (filter (\<lambda>i. p ! i = CHR ''/'') [1..<length p])"

text \<open>The last name of a path: the text after its last slash.\<close>

definition basename :: "string \<Rightarrow> string" where
  "basename p = rev (takeWhile (\<lambda>c. c \<noteq> CHR ''/'') (rev p))"

text \<open>
  The limits of Linux on the bytes of one name and of a whole path (with its final zero
  byte).
\<close>

definition NAME_MAX :: nat where
  "NAME_MAX = 255"

definition PATH_MAX :: nat where
  "PATH_MAX = 4096"

text \<open>
  The system walks the directories above a path from the left: a name that is too long is
  refused, a regular file where a directory is needed is \<open>NotADirectoryError\<close>.
\<close>

fun walk :: "filesystem \<Rightarrow> string list \<Rightarrow> exn option" where
  "walk f [] = None"
| "walk f (a # as) =
     (if NAME_MAX < length (basename a) then Some OSError
      else if os_path_isfile f a then Some NotADirectoryError
      else walk f as)"

text \<open>
  What \<open>open\<close> raises before it looks at the path itself: the empty path does not exist,
  Python refuses a zero byte, the system refuses a path or a name that is too long and a
  regular file among the directories above.
\<close>

definition open_error :: "filesystem \<Rightarrow> string \<Rightarrow> exn option" where
  "open_error f p =
     (if p = [] then Some FileNotFoundError
      else if CHR 0x00 \<in> set p then Some ValueError
      else if PATH_MAX \<le> length p then Some OSError
      else (case walk f (ancestors p) of
              Some e \<Rightarrow> Some e
            | None \<Rightarrow> if NAME_MAX < length (basename p) then Some OSError else None))"

text \<open>\<open>open(path, "r")\<close> and reading the whole file.\<close>

definition open_read :: "filesystem \<Rightarrow> string \<Rightarrow> exn + string" where
  "open_read f p =
     (case open_error f p of
        Some e \<Rightarrow> Inl e
      | None \<Rightarrow>
          (case f p of
             None \<Rightarrow> Inl FileNotFoundError
           | Some Dir \<Rightarrow> Inl IsADirectoryError
           | Some (File c) \<Rightarrow> Inr c))"

text \<open>
  Opening a path for writing and writing a text: the directory that holds the path must
  exist (the empty one is the current or the root directory), and the path must not be a
  directory.
\<close>

definition store :: "filesystem \<Rightarrow> string \<Rightarrow> string \<Rightarrow> exn + filesystem" where
  "store f p c =
     (case open_error f p of
        Some e \<Rightarrow> Inl e
      | None \<Rightarrow>
          if parent p \<noteq> [] \<and> f (parent p) \<noteq> Some Dir then Inl FileNotFoundError
          else if f p = Some Dir then Inl IsADirectoryError
          else Inr (f(p \<mapsto> File c)))"

definition open_w :: "string \<Rightarrow> unit io" where
  "open_w p w =
     (case store (fs w) p [] of
        Inl e \<Rightarrow> (Inl e, w)
      | Inr f \<Rightarrow> (Inr (), w\<lparr>fs := f, events := events w @ [WriteFile p]\<rparr>))"

text \<open>Writing to the open file and closing it.\<close>

definition file_write :: "string \<Rightarrow> string \<Rightarrow> unit io" where
  "file_write p c w = (Inr (), w\<lparr>fs := (fs w)(p \<mapsto> File c)\<rparr>)"

text \<open>\<open>os.makedirs\<close>: the directory and every missing directory above it.\<close>

definition os_makedirs :: "string \<Rightarrow> unit io" where
  "os_makedirs p w =
     (case open_error (fs w) p of
        Some e \<Rightarrow> (Inl e, w)
      | None \<Rightarrow>
          if os_path_exists (fs w) p then (Inl FileExistsError, w)
          else (Inr (), w\<lparr>fs := (\<lambda>q. if q = p \<or> (q \<in> set (ancestors p) \<and> fs w q = None)
                                       then Some Dir else fs w q),
                         events := events w @ [Makedirs p]\<rparr>))"

section \<open>The program\<close>

definition prepare_build_directory :: "json \<Rightarrow> unit io" where
  \<open>prepare_build_directory path =
     io_bind (io_lift (os_path_arg path)) (\<lambda>p w.
       (if os_path_exists (fs w) p then
          (if os_path_isfile (fs w) p then
             io_then (print (''The specified build path '' @ quote p @ '' is a file'')) (sys_exit (- 1))
           else print (''Using existing output directory '' @ quote p))
        else
          io_then (os_makedirs p) (print (''Created output directory '' @ quote p))) w)\<close>

definition check_file_exists :: "string \<Rightarrow> unit io" where
  \<open>check_file_exists path w =
     (if \<not> (os_path_exists (fs w) path \<and> os_path_isfile (fs w) path) then
        io_then (print (''The file '' @ quote path @ '' doesn't exists or is not a valid file''))
          (sys_exit (- 1)) w
      else print (''File '' @ quote path @ '' available'') w)\<close>

text \<open>The f-string \<open>f"{source_dir}/{v}"\<close>, where getting \<open>v\<close> may raise.\<close>

definition join_path :: "string \<Rightarrow> exn + json \<Rightarrow> exn + string" where
  "join_path d r =
     (case r of
        Inl e \<Rightarrow> Inl e
      | Inr v \<Rightarrow> (case fmt v of Inl e \<Rightarrow> Inl e | Inr s \<Rightarrow> Inr (d @ ''/'' @ s)))"

definition check_asset :: "string \<Rightarrow> exn + json \<Rightarrow> unit io" where
  "check_asset d r = io_bind (io_lift (join_path d r)) check_file_exists"

definition check_input_assets :: "pydict \<Rightarrow> unit io" where
  \<open>check_input_assets configuration =
     io_bind (io_lift (getitem configuration ''source'')) (\<lambda>source_dir.
     io_bind (io_lift (os_path_arg source_dir)) (\<lambda>d w.
       (if \<not> os_path_exists (fs w) d \<or> os_path_isfile (fs w) d then
          io_then (print (''Invalid assets directory '' @ quote d)) (sys_exit (- 1))
        else
          io_then (check_asset d (getitem configuration ''animation''))
          (io_bind (io_lift (getitem configuration ''dialog'')) (\<lambda>dialog.
             io_then (check_asset d (subscript dialog ''box''))
            (io_then (check_asset d (subscript dialog ''entry''))
            (io_then (check_asset d (subscript dialog ''bullet''))
            (io_then (check_asset d (subscript dialog ''lock''))
            (io_bind (io_lift (getitem configuration ''progression'')) (\<lambda>progression.
               io_then (check_asset d (subscript progression ''box''))
                       (check_asset d (subscript progression ''bar'')))))))))) w))\<close>

subsection \<open>Frame extraction\<close>

definition source_fps :: "int \<Rightarrow> pyfloat \<Rightarrow> exn + int" where
  "source_fps n t = (case py_truediv n t of Inl e \<Rightarrow> Inl e | Inr q \<Rightarrow> py_int q)"

definition number_of_extracts :: "pyfloat \<Rightarrow> json \<Rightarrow> exn + json" where
  "number_of_extracts t fps = (case py_int t of Inl e \<Rightarrow> Inl e | Inr n \<Rightarrow> py_mul n fps)"

text \<open>
  The output of the encoder is the pattern \<open>f"{output_path}/animation_frame_%d.png"\<close>. The
  image sequence muxer of ffmpeg replaces \<open>%d\<close> by the number of the frame, counted from
  its option \<open>start_number\<close>, whose default is 1; the source sets no such option. A percent
  sign in the output path would change the pattern and is not followed.
\<close>

definition output_pattern :: "json \<Rightarrow> exn + string" where
  "output_pattern output_path =
     (case fmt output_path of
        Inl e \<Rightarrow> Inl e
      | Inr out \<Rightarrow> if CHR ''%'' \<in> set out then Inl Unmodelled else Inr out)"

definition image2_start_number :: int where
  "image2_start_number = 1"

definition frame_name :: "string \<Rightarrow> int \<Rightarrow> string" where
  "frame_name out i = out @ ''/animation_frame_'' @ str_int i @ ''.png''"

fun write_frames :: "string \<Rightarrow> int \<Rightarrow> string list \<Rightarrow> unit io" where
  "write_frames out i [] w = (Inr (), w)"
| "write_frames out i (x # xs) w =
     (case store (fs w) (frame_name out i) x of
        Inl e \<Rightarrow> (Inl FFmpegError, w)
      | Inr f \<Rightarrow> write_frames out (i + 1) xs (w\<lparr>fs := f\<rparr>))"

definition ffmpeg_probe :: "runtime \<Rightarrow> string \<Rightarrow> (string \<times> stream) io" where
  "ffmpeg_probe rt video_path w =
     (case fs w video_path of
        Some (File c) \<Rightarrow>
          (case ffprobe rt c of Inl e \<Rightarrow> Inl e | Inr st \<Rightarrow> Inr (c, st),
           w\<lparr>events := events w @ [Probe video_path]\<rparr>)
      | _ \<Rightarrow> (Inl FFmpegError, w\<lparr>events := events w @ [Probe video_path]\<rparr>))"

definition ffmpeg_run :: "runtime \<Rightarrow> string \<Rightarrow> int \<Rightarrow> json \<Rightarrow> string \<Rightarrow> unit io" where
  "ffmpeg_run rt c wd fps out w =
     (let w' = w\<lparr>events := events w @ [RunFFmpeg (out @ ''/animation_frame_%d.png'')]\<rparr>
      in case ffmpeg_frames rt c wd fps of
           None \<Rightarrow> (Inl FFmpegError, w')
         | Some frames \<Rightarrow> write_frames out image2_start_number frames w')"

definition extract_frames_from_video :: "runtime \<Rightarrow> string \<Rightarrow> json \<Rightarrow> json \<Rightarrow> json io" where
  \<open>extract_frames_from_video rt video_path output_path fps =
     io_then (print (''Generate animation frames from video '' @ quote video_path))
    (io_bind (ffmpeg_probe rt video_path) (\<lambda>(c, probe).
     io_bind (io_lift (source_fps (nb_frames probe) (duration probe))) (\<lambda>sfps.
     io_then (print (''Input video duration = '' @ float_repr rt (duration probe)
                     @ '' seconds @ '' @ str_int sfps @ '' fps''))
    (io_then (print (''Input video size = '' @ str_int (width probe) @ ''x''
                     @ str_int (height probe)))
    (io_bind (io_lift (number_of_extracts (duration probe) fps)) (\<lambda>n.
     io_bind (io_lift (fmt n)) (\<lambda>ntext.
     io_then (print (''The result should be '' @ ntext @ '' images''))
    (io_bind (io_lift (output_pattern output_path)) (\<lambda>out.
     io_then (ffmpeg_run rt c (width probe) fps out)
             (io_return n))))))))))\<close>

subsection \<open>The descriptor and the script\<close>

text \<open>The value of an f-string made of constant texts and of values to format.\<close>

fun fstring :: "(string + (exn + json)) list \<Rightarrow> exn + string" where
  "fstring [] = Inr []"
| "fstring (Inl s # ps) = (case fstring ps of Inl e \<Rightarrow> Inl e | Inr t \<Rightarrow> Inr (s @ t))"
| "fstring (Inr r # ps) =
     (case r of
        Inl e \<Rightarrow> Inl e
      | Inr v \<Rightarrow>
          (case fmt v of
             Inl e \<Rightarrow> Inl e
           | Inr s \<Rightarrow> (case fstring ps of Inl e \<Rightarrow> Inl e | Inr t \<Rightarrow> Inr (s @ t))))"

definition plymouth_text :: "pydict \<Rightarrow> json \<Rightarrow> json \<Rightarrow> exn + string" where
  \<open>plymouth_text configuration theme_name theme_directory =
     fstring
       [Inl ''[Plymouth Theme]\<newline>'',
        Inl ''Name='', Inr (Inr theme_name), Inl ''\<newline>'',
        Inl ''Description='', Inr (getitem configuration ''description''), Inl ''\<newline>'',
        Inl ''ModuleName=script\<newline>\<newline>'',
        Inl ''[script]\<newline>'',
        Inl ''ImageDir='', Inr (Inr theme_directory), Inl ''/'', Inr (Inr theme_name),
        Inl ''\<newline>'',
        Inl ''ScriptFile='', Inr (Inr theme_directory), Inl ''/'', Inr (Inr theme_name),
        Inl ''/'', Inr (Inr theme_name), Inl ''.script\<newline>'']\<close>

definition write_plymouth_file :: "pydict \<Rightarrow> unit io" where
  \<open>write_plymouth_file configuration =
     io_bind (io_lift (getitem configuration ''name'')) (\<lambda>theme_name.
     io_bind (io_lift (getitem configuration ''theme_directory'')) (\<lambda>theme_directory.
     io_bind (io_lift (fstring [Inr (getitem configuration ''build''), Inl ''/'',
                                Inr (Inr theme_name), Inl ''.plymouth''])) (\<lambda>theme_filepath.
     io_then (open_w theme_filepath)
    (io_bind (io_lift (plymouth_text configuration theme_name theme_directory)) (\<lambda>text.
     io_then (file_write theme_filepath text)
             (print (''Plymouth theme file '' @ quote theme_filepath @ '' created/updated'')))))))\<close>

definition script_text :: "json \<Rightarrow> exn + string" where
  \<open>script_text frame_count =
     fstring
       [Inl ''for (i = 0; i < '', Inr (Inr frame_count), Inl ''; i++)\<newline>'',
        Inl ''   animation_image[i] = Image("animation_frame_" + i + ".png");\<newline>'',
        Inl ''animation_sprite = Sprite();\<newline>\<newline>'',
        Inl ''animation_sprite.SetX(Window.GetWidth() / 2 - animation_image[0].GetWidth() / 2);\<newline>'',
        Inl ''animation_sprite.SetY(Window.GetHeight() / 2 - animation_image[0].GetHeight() / 2);\<newline>'']\<close>

definition write_plymouth_script :: "pydict \<Rightarrow> json \<Rightarrow> unit io" where
  \<open>write_plymouth_script configuration frame_count =
     io_bind (io_lift (getitem configuration ''name'')) (\<lambda>theme_name.
     io_bind (io_lift (getitem configuration ''theme_directory'')) (\<lambda>theme_directory.
     io_bind (io_lift (fstring [Inr (getitem configuration ''build''), Inl ''/'',
                                Inr (Inr theme_name), Inl ''.script''])) (\<lambda>script_filepath.
     io_then (open_w script_filepath)
    (io_bind (io_lift (script_text frame_count)) (\<lambda>text.
     io_then (file_write script_filepath text)
             (print (''Plymouth script file '' @ quote script_filepath @ '' created/updated'')))))))\<close>

subsection \<open>The pipeline\<close>

definition build_theme :: "runtime \<Rightarrow> pydict \<Rightarrow> unit io" where
  \<open>build_theme rt configuration =
     io_then (check_input_assets configuration)
    (io_then (io_bind (io_lift (getitem configuration ''build'')) prepare_build_directory)
    (io_then (write_plymouth_file configuration)
    (io_bind
       (io_bind (io_lift (fstring [Inr (getitem configuration ''source''), Inl ''/'',
                                   Inr (getitem configuration ''animation'')])) (\<lambda>video_path.
        io_bind (io_lift (getitem configuration ''build'')) (\<lambda>output_path.
        io_bind (io_lift (getitem configuration ''fps'')) (\<lambda>fps.
          extract_frames_from_video rt video_path output_path fps))))
       (\<lambda>n. write_plymouth_script configuration n))))\<close>

definition default_configuration :: pydict where
  \<open>default_configuration =
     [(''name'', JStr ''custom''),
      (''description'', JStr ''A custom theme for Plymouth''),
      (''theme_directory'', JStr ''/usr/share/plymouth/themes''),
      (''source'', JStr ''./source''),
      (''build'', JStr ''./build''),
      (''animation'', JStr ''animation.mp4''),
      (''fps'', JInt 25),
      (''dialog'', JObj
         [(''box'', JStr ''box.png''),
          (''entry'', JStr ''entry.png''),
          (''bullet'', JStr ''bullet.png''),
          (''lock'', JStr ''lock.png''),
          (''ratio'', JFloat (binary64 (6 / 10)))]),
      (''progression'', JObj
         [(''bar'', JStr ''progress_bar.png''),
          (''box'', JStr ''progress_box.png''),
          (''ratio'', JFloat (binary64 (6 / 10)))])]\<close>

text \<open>
  \<open>getopt.getopt(args, "c:")\<close>: the options before the first argument that is no option.
  The only option is \<open>-c\<close>, which takes a value, glued to it or in the next argument.
\<close>

fun getopt :: "string list \<Rightarrow> exn + (string \<times> string) list" where
  "getopt [] = Inr []"
| "getopt (a # rest) =
     (if take 1 a = ''-'' \<and> a \<noteq> ''-'' then
        (if a = ''--'' then Inr []
         else if take 2 a = ''--'' then Inl GetoptError
         else if a ! 1 \<noteq> CHR ''c'' then Inl GetoptError
         else if drop 2 a \<noteq> [] then
           (case getopt rest of Inl e \<Rightarrow> Inl e | Inr opts \<Rightarrow> Inr ((''-c'', drop 2 a) # opts))
         else
           (case rest of
              [] \<Rightarrow> Inl GetoptError
            | v # rest' \<Rightarrow>
                (case getopt rest' of Inl e \<Rightarrow> Inl e | Inr opts \<Rightarrow> Inr ((''-c'', v) # opts))))
      else Inr [])"

definition configuration_filepath :: "(string \<times> string) list \<Rightarrow> bool \<times> string" where
  "configuration_filepath opts =
     fold (\<lambda>(opt, arg) (custom, path). if opt = ''-c'' then (True, arg) else (custom, path))
       opts (False, ''config.json'')"

text \<open>The body of the \<open>try\<close> of lines 232 to 236.\<close>

definition read_configuration :: "runtime \<Rightarrow> filesystem \<Rightarrow> string \<Rightarrow> pydict \<Rightarrow> exn + pydict" where
  "read_configuration rt f path configuration =
     (case open_read f path of
        Inl e \<Rightarrow> Inl e
      | Inr c \<Rightarrow>
          (case json_load rt c of
             Inl e \<Rightarrow> Inl e
           | Inr custom_configuration \<Rightarrow> configuration_update configuration custom_configuration))"

definition load_configuration :: "runtime \<Rightarrow> bool \<Rightarrow> string \<Rightarrow> pydict \<Rightarrow> pydict io" where
  \<open>load_configuration rt custom_configuration_file path configuration w =
     (case read_configuration rt (fs w) path configuration of
        Inr c \<Rightarrow> (Inr c, w)
      | Inl FileNotFoundError \<Rightarrow>
          (if custom_configuration_file then
             io_then (print (''The provided configuration file '' @ quote path @ '' doesn't exist.''))
               (sys_exit 2) w
           else
             io_then (print (''Default configuration file 'config.json' doesn't exist. ''
                             @ ''Continue with default built-in configuration''))
               (io_return configuration) w)
      | Inl e \<Rightarrow> (Inl e, w))\<close>

definition main :: "runtime \<Rightarrow> string \<Rightarrow> string list \<Rightarrow> unit io" where
  \<open>main rt prog args =
     (case getopt args of
        Inl e \<Rightarrow> io_then (print (prog @ '' -c [path_to_configfile]'')) (sys_exit 1)
      | Inr opts \<Rightarrow>
          (case configuration_filepath opts of
             (custom_configuration_file, path) \<Rightarrow>
               io_bind (load_configuration rt custom_configuration_file path default_configuration)
                 (build_theme rt)))\<close>

section \<open>Notions of the specification\<close>

text \<open>
  The data model gives the fields of the configuration their types: the paths are strings,
  the sections \<open>dialog\<close> and \<open>progression\<close> are objects.
\<close>

definition str_field :: "pydict \<Rightarrow> string \<Rightarrow> string option" where
  "str_field d k = (case map_of d k of Some (JStr s) \<Rightarrow> Some s | _ \<Rightarrow> None)"

definition obj_field :: "pydict \<Rightarrow> string \<Rightarrow> pydict option" where
  "obj_field d k = (case map_of d k of Some (JObj kvs) \<Rightarrow> Some kvs | _ \<Rightarrow> None)"

text \<open>
  The required assets of a configuration: the source directory, and under it the animation
  video, the four images of the dialog and the two images of the progression.
\<close>

definition required_assets :: "pydict \<Rightarrow> (string \<times> string list) option" where
  "required_assets configuration =
     (case (str_field configuration ''source'', obj_field configuration ''dialog'',
            obj_field configuration ''progression'') of
        (Some d, Some dialog, Some progression) \<Rightarrow>
          map_option (\<lambda>names. (d, map (\<lambda>x. d @ ''/'' @ x) names))
            (those [str_field configuration ''animation'',
                    str_field dialog ''box'', str_field dialog ''entry'',
                    str_field dialog ''bullet'', str_field dialog ''lock'',
                    str_field progression ''box'', str_field progression ''bar''])
      | _ \<Rightarrow> None)"

text \<open>The checks of a list of files, one after the other.\<close>

fun check_files :: "string list \<Rightarrow> unit io" where
  "check_files [] = io_return ()"
| "check_files (p # ps) = io_then (check_file_exists p) (check_files ps)"

text \<open>The paths of the descriptor and of the script.\<close>

definition descriptor_path :: "pydict \<Rightarrow> exn + string" where
  "descriptor_path configuration =
     fstring [Inr (getitem configuration ''build''), Inl ''/'',
              Inr (getitem configuration ''name''), Inl ''.plymouth'']"

definition script_path :: "pydict \<Rightarrow> exn + string" where
  "script_path configuration =
     fstring [Inr (getitem configuration ''build''), Inl ''/'',
              Inr (getitem configuration ''name''), Inl ''.script'']"

text \<open>The steps of the pipeline that write a file or call the video tool.\<close>

fun is_step :: "event \<Rightarrow> bool" where
  "is_step (WriteFile p) = True"
| "is_step (Probe p) = True"
| "is_step (RunFFmpeg p) = True"
| "is_step _ = False"

definition steps :: "world \<Rightarrow> event list" where
  "steps w = filter is_step (events w)"

text \<open>
  The path of the video, and the duration that the probe reports for the video found in a
  file system.
\<close>

definition configured_video :: "pydict \<Rightarrow> exn + string" where
  "configured_video configuration =
     fstring [Inr (getitem configuration ''source''), Inl ''/'',
              Inr (getitem configuration ''animation'')]"

definition probed_duration :: "runtime \<Rightarrow> pydict \<Rightarrow> filesystem \<Rightarrow> pyfloat option" where
  "probed_duration rt configuration f =
     (case configured_video configuration of
        Inl e \<Rightarrow> None
      | Inr v \<Rightarrow>
          (case f v of
             Some (File c) \<Rightarrow> (case ffprobe rt c of Inl e \<Rightarrow> None | Inr st \<Rightarrow> Some (duration st))
           | _ \<Rightarrow> None))"

text \<open>The call of the frame extractor in \<open>build_theme\<close>, with its three arguments.\<close>

abbreviation extraction :: "runtime \<Rightarrow> pydict \<Rightarrow> json io" where
  "extraction rt configuration \<equiv>
     io_bind (io_lift (fstring [Inr (getitem configuration ''source''), Inl ''/'',
                                Inr (getitem configuration ''animation'')])) (\<lambda>video_path.
     io_bind (io_lift (getitem configuration ''build'')) (\<lambda>output_path.
     io_bind (io_lift (getitem configuration ''fps'')) (\<lambda>fps.
       extract_frames_from_video rt video_path output_path fps)))"

section \<open>Concrete inputs\<close>

text \<open>
  A probe that knows two videos, of ten and of two seconds at 30 frames per second, and an
  encoder that yields one frame per second of video and per unit of the target rate.
\<close>

definition sample_runtime :: runtime where
  \<open>sample_runtime =
     \<lparr>json_load = (\<lambda>c. if c = ''{"name": "foo"}'' then Inr (JObj [(''name'', JStr ''foo'')])
                         else Inl JSONDecodeError),
      ffprobe = (\<lambda>c. if c = ''ten seconds''
                      then Inr \<lparr>duration = Finite 10, width = 640, height = 480, nb_frames = 300\<rparr>
                      else if c = ''two seconds''
                      then Inr \<lparr>duration = Finite 2, width = 640, height = 480, nb_frames = 60\<rparr>
                      else Inl FFmpegError),
      ffmpeg_frames = (\<lambda>c wd fps.
                         case fps of
                           JInt k \<Rightarrow>
                             if c = ''ten seconds'' then Some (replicate (nat (10 * k)) ''png'')
                             else if c = ''two seconds'' then Some (replicate (nat (2 * k)) ''png'')
                             else None
                         | _ \<Rightarrow> None),
      float_repr = (\<lambda>x. if x = Finite 10 then ''10.0'' else if x = Finite 2 then ''2.0'' else ''?'')\<rparr>\<close>

text \<open>A source directory with every asset, the animation being the given content.\<close>

definition sample_files :: "string \<Rightarrow> (string \<times> node) list" where
  "sample_files video =
     [(''./source'', Dir),
      (''./source/animation.mp4'', File video),
      (''./source/box.png'', File ''png''),
      (''./source/entry.png'', File ''png''),
      (''./source/bullet.png'', File ''png''),
      (''./source/lock.png'', File ''png''),
      (''./source/progress_box.png'', File ''png''),
      (''./source/progress_bar.png'', File ''png'')]"

definition sample_world :: "string \<Rightarrow> world" where
  "sample_world video = \<lparr>fs = map_of (sample_files video), events = []\<rparr>"

text \<open>The same, with a regular file where the build directory should be.\<close>

definition blocked_world :: "string \<Rightarrow> world" where
  "blocked_world video = \<lparr>fs = map_of ((''./build'', File []) # sample_files video), events = []\<rparr>"

text \<open>The same, without one image of the dialog.\<close>

definition incomplete_world :: "string \<Rightarrow> world" where
  "incomplete_world video =
     \<lparr>fs = map_of (filter (\<lambda>(p, n). p \<noteq> ''./source/lock.png'') (sample_files video)),
      events = []\<rparr>"

text \<open>
  The same, with the build directory in place and a user configuration that only names the
  theme.
\<close>

definition built_world :: "string \<Rightarrow> world" where
  \<open>built_world video =
     \<lparr>fs = map_of ((''./build'', Dir) # (''theme.json'', File ''{"name": "foo"}'')
                    # sample_files video),
      events = []\<rparr>\<close>

section \<open>Properties\<close>

subsection \<open>The validation of the assets\<close>

lemmas io_defs = io_bind_def io_then_def io_lift_def io_return_def io_raise_def sys_exit_def print_def

lemma walk_None:
  "(walk f as = None) = (\<forall>a \<in> set as. length (basename a) \<le> NAME_MAX \<and> \<not> os_path_isfile f a)"
  by (induction as) auto

lemma open_error_NoneI:
  assumes "p \<noteq> []" and "CHR 0x00 \<notin> set p" and "length p < PATH_MAX"
    and "\<forall>a \<in> set (ancestors p). length (basename a) \<le> NAME_MAX \<and> \<not> os_path_isfile f a"
    and "length (basename p) \<le> NAME_MAX"
  shows "open_error f p = None"
  using assms by (simp add: open_error_def walk_None [THEN iffD2])

lemma open_error_NoneD:
  assumes "open_error f p = None"
  shows "p \<noteq> []" and "CHR 0x00 \<notin> set p" and "length p < PATH_MAX"
    and "\<forall>a \<in> set (ancestors p). length (basename a) \<le> NAME_MAX \<and> \<not> os_path_isfile f a"
    and "length (basename p) \<le> NAME_MAX"
  using assms
  by (auto simp: open_error_def walk_None split: if_splits option.splits)

lemma store_ok:
  assumes "open_error f p = None" and "parent p = [] \<or> f (parent p) = Some Dir"
    and "f p \<noteq> Some Dir"
  shows "store f p c = Inr (f(p \<mapsto> File c))"
  using assms by (auto simp: store_def)

lemma store_InrD: "store f p c = Inr g \<Longrightarrow> g = f(p \<mapsto> File c)"
  by (auto simp: store_def split: option.splits if_splits)

lemma open_read_missing:
  "open_error f p = None \<Longrightarrow> f p = None \<Longrightarrow> open_read f p = Inl FileNotFoundError"
  by (simp add: open_read_def)

lemma open_read_empty: "open_read f [] = Inl FileNotFoundError"
  by (simp add: open_read_def open_error_def)


lemma io_then_return [simp]: "io_then m (io_return ()) = m"
  by (auto simp: io_defs fun_eq_iff split: prod.splits sum.splits)

lemma isfile_exists: "os_path_isfile f p \<Longrightarrow> os_path_exists f p"
  by (auto simp: os_path_isfile_def os_path_exists_def split: option.splits)

lemma not_dir_iff: "(\<not> os_path_exists f p \<or> os_path_isfile f p) = (f p \<noteq> Some Dir)"
  by (auto simp: os_path_isfile_def os_path_exists_def split: option.splits node.splits)

lemma check_file_exists_eq:
  "check_file_exists p w =
     (if os_path_isfile (fs w) p
      then (Inr (), w\<lparr>events := events w @ [Print (''File '' @ quote p @ '' available'')]\<rparr>)
      else (Inl (SystemExit (- 1)),
            w\<lparr>events := events w
                 @ [Print (''The file '' @ quote p @ '' doesn't exists or is not a valid file'')]\<rparr>))"
  by (auto simp: check_file_exists_def io_defs isfile_exists)

lemma check_files_ok:
  "\<forall>p \<in> set ps. os_path_isfile (fs w) p \<Longrightarrow>
   check_files ps w =
     (Inr (), w\<lparr>events := events w @ map (\<lambda>p. Print (''File '' @ quote p @ '' available'')) ps\<rparr>)"
proof (induction ps arbitrary: w)
  case Nil
  show ?case by (simp add: io_return_def)
next
  case (Cons p ps)
  let ?w = "w\<lparr>events := events w @ [Print (''File '' @ quote p @ '' available'')]\<rparr>"
  have "\<forall>q \<in> set ps. os_path_isfile (fs ?w) q"
    using Cons.prems by simp
  from Cons.IH [OF this] Cons.prems show ?case
    by (simp add: io_then_def io_bind_def check_file_exists_eq)
qed

lemma check_files_fail:
  "\<exists>p \<in> set ps. \<not> os_path_isfile (fs w) p \<Longrightarrow>
   \<exists>msgs. check_files ps w = (Inl (SystemExit (- 1)), w\<lparr>events := events w @ map Print msgs\<rparr>)"
proof (induction ps arbitrary: w)
  case Nil
  then show ?case by simp
next
  case (Cons p ps)
  show ?case
  proof (cases "os_path_isfile (fs w) p")
    case False
    have "check_files (p # ps) w = (Inl (SystemExit (- 1)),
            w\<lparr>events := events w
                 @ map Print [''The file '' @ quote p @ '' doesn't exists or is not a valid file'']\<rparr>)"
      using False by (simp add: io_then_def io_bind_def check_file_exists_eq)
    then show ?thesis by blast
  next
    case True
    let ?m = "''File '' @ quote p @ '' available''"
    let ?w = "w\<lparr>events := events w @ [Print ?m]\<rparr>"
    have "\<exists>q \<in> set ps. \<not> os_path_isfile (fs ?w) q"
      using Cons.prems True by auto
    from Cons.IH [OF this] obtain msgs where
      m: "check_files ps ?w = (Inl (SystemExit (- 1)), ?w\<lparr>events := events ?w @ map Print msgs\<rparr>)"
      by blast
    have "check_files (p # ps) w
            = (Inl (SystemExit (- 1)), w\<lparr>events := events w @ map Print (?m # msgs)\<rparr>)"
      using True m by (simp add: io_then_def io_bind_def check_file_exists_eq)
    then show ?thesis by blast
  qed
qed

lemma required_assetsD:
  assumes "required_assets cfg = Some (d, ps)"
  shows "\<exists>a dialog progression b e u l pb pr.
     map_of cfg ''source'' = Some (JStr d) \<and> map_of cfg ''animation'' = Some (JStr a)
   \<and> map_of cfg ''dialog'' = Some (JObj dialog) \<and> map_of cfg ''progression'' = Some (JObj progression)
   \<and> map_of dialog ''box'' = Some (JStr b) \<and> map_of dialog ''entry'' = Some (JStr e)
   \<and> map_of dialog ''bullet'' = Some (JStr u) \<and> map_of dialog ''lock'' = Some (JStr l)
   \<and> map_of progression ''box'' = Some (JStr pb) \<and> map_of progression ''bar'' = Some (JStr pr)
   \<and> ps = map (\<lambda>x. d @ ''/'' @ x) [a, b, e, u, l, pb, pr]"
  using assms
  by (auto simp: required_assets_def str_field_def obj_field_def
           split: option.splits json.splits)

lemma check_input_assets_typed:
  assumes "required_assets cfg = Some (d, ps)"
  shows "check_input_assets cfg w =
     (if fs w d = Some Dir then check_files ps w
      else (Inl (SystemExit (- 1)),
            w\<lparr>events := events w @ [Print (''Invalid assets directory '' @ quote d)]\<rparr>))"
proof -
  from required_assetsD [OF assms] obtain a dialog progression b e u l pb pr where
    f: "map_of cfg ''source'' = Some (JStr d)" "map_of cfg ''animation'' = Some (JStr a)"
       "map_of cfg ''dialog'' = Some (JObj dialog)" "map_of cfg ''progression'' = Some (JObj progression)"
       "map_of dialog ''box'' = Some (JStr b)" "map_of dialog ''entry'' = Some (JStr e)"
       "map_of dialog ''bullet'' = Some (JStr u)" "map_of dialog ''lock'' = Some (JStr l)"
       "map_of progression ''box'' = Some (JStr pb)" "map_of progression ''bar'' = Some (JStr pr)"
    and ps: "ps = map (\<lambda>x. d @ ''/'' @ x) [a, b, e, u, l, pb, pr]"
    by blast
  have g: "getitem cfg ''source'' = Inr (JStr d)" "getitem cfg ''animation'' = Inr (JStr a)"
       "getitem cfg ''dialog'' = Inr (JObj dialog)" "getitem cfg ''progression'' = Inr (JObj progression)"
       "getitem dialog ''box'' = Inr (JStr b)" "getitem dialog ''entry'' = Inr (JStr e)"
       "getitem dialog ''bullet'' = Inr (JStr u)" "getitem dialog ''lock'' = Inr (JStr l)"
       "getitem progression ''box'' = Inr (JStr pb)" "getitem progression ''bar'' = Inr (JStr pr)"
    using f by (simp_all add: getitem_def)
  have ca: "check_asset d (Inr (JStr x)) = check_file_exists (d @ ''/'' @ x)" for x
    by (simp add: check_asset_def join_path_def io_bind_def io_lift_def fun_eq_iff)
  have bl: "io_bind (io_lift (Inr x)) k = k x" for x :: json and k :: "json \<Rightarrow> unit io"
    by (simp add: io_bind_def io_lift_def fun_eq_iff)
  have bs: "io_bind (io_lift (Inr x)) k = k x" for x :: string and k :: "string \<Rightarrow> unit io"
    by (simp add: io_bind_def io_lift_def fun_eq_iff)
  show ?thesis
  proof (cases "fs w d = Some Dir")
    case True
    then have c: "(\<not> os_path_exists (fs w) d \<or> os_path_isfile (fs w) d) = False"
      by (simp add: os_path_exists_def os_path_isfile_def)
    show ?thesis
      unfolding check_input_assets_def g bl os_path_arg.simps bs subscript.simps ca ps c
      using True by simp
  next
    case False
    then have c: "(\<not> os_path_exists (fs w) d \<or> os_path_isfile (fs w) d) = True"
      using not_dir_iff [of "fs w" d] by simp
    show ?thesis
      unfolding check_input_assets_def g bl os_path_arg.simps bs c
      using False by (simp add: io_defs)
  qed
qed

subsection \<open>The merge of the configuration\<close>

lemma map_of_dict_update: "map_of (dict_update d other) = map_of d ++ map_of (rev other)"
  unfolding dict_update_def
proof (induction other arbitrary: d)
  case Nil
  show ?case by simp
next
  case (Cons kv other)
  obtain k v where kv: "kv = (k, v)" by (cases kv)
  have "map_of (fold (\<lambda>(k, v). AList.update k v) other (AList.update k v d))
        = map_of (AList.update k v d) ++ map_of (rev other)"
    by (rule Cons.IH)
  also have "\<dots> = map_of d ++ (map_of (rev other @ [(k, v)]))"
    by (simp add: update_conv' fun_eq_iff map_add_def split: option.splits)
  finally show ?case by (simp add: kv)
qed

lemma getitem_dict_update_in:
  assumes "distinct (map fst other)" and "(k, v) \<in> set other"
  shows "getitem (dict_update d other) k = Inr v"
proof -
  have "distinct (map fst (rev other))"
    using assms(1) by (simp add: rev_map [symmetric])
  moreover have "(k, v) \<in> set (rev other)"
    using assms(2) by simp
  ultimately have "map_of (rev other) k = Some v"
    by (rule map_of_is_SomeI)
  then show ?thesis
    by (simp add: getitem_def map_of_dict_update map_add_def)
qed

lemma getitem_dict_update_out:
  assumes "k \<notin> fst ` set other"
  shows "getitem (dict_update d other) k = getitem d k"
proof -
  have "map_of (rev other) k = None"
    using assms by (simp add: map_of_eq_None_iff)
  then show ?thesis
    by (simp add: getitem_def map_of_dict_update map_add_def)
qed

text \<open>
  C10. The merge of the user configuration is \<open>dict.update\<close> at the top level. A section
  that the user file gives as an object (\<open>dialog\<close>, \<open>progression\<close>) replaces the whole
  built-in section: the merged section is the object of the user, and a nested key that the
  user left out is missing from it (reading it raises \<open>KeyError\<close>), whatever the built-in
  section held. A top-level key that the user file does not name keeps its built-in value.
\<close>

theorem configuration_update_shallow:
  assumes "distinct (map fst user)"
    and "(section, JObj nested) \<in> set user"
  shows "\<exists>merged. configuration_update default_configuration (JObj user) = Inr merged
           \<and> getitem merged section = Inr (JObj nested)
           \<and> (\<forall>k. k \<notin> fst ` set nested \<longrightarrow>
                 (case getitem merged section of Inl e \<Rightarrow> Inl e | Inr v \<Rightarrow> subscript v k)
                   = Inl (KeyError k))
           \<and> (\<forall>k. k \<notin> fst ` set user \<longrightarrow> getitem merged k = getitem default_configuration k)"
proof -
  have a: "getitem (dict_update default_configuration user) section = Inr (JObj nested)"
    using assms by (rule getitem_dict_update_in)
  have b: "subscript (JObj nested) k = Inl (KeyError k)" if "k \<notin> fst ` set nested" for k
  proof -
    have "map_of nested k = None"
      using that by (simp add: map_of_eq_None_iff)
    then show ?thesis
      by (simp add: getitem_def)
  qed
  show ?thesis
    using a b by (simp add: getitem_dict_update_out)
qed

theorem configuration_update_shallow_witness:
  "getitem default_configuration ''dialog''
     = Inr (JObj [(''box'', JStr ''box.png''), (''entry'', JStr ''entry.png''),
                  (''bullet'', JStr ''bullet.png''), (''lock'', JStr ''lock.png''),
                  (''ratio'', JFloat (binary64 (6 / 10)))])
   \<and> (\<exists>merged.
         configuration_update default_configuration
           (JObj [(''dialog'', JObj [(''box'', JStr ''b.png'')])]) = Inr merged
       \<and> getitem merged ''dialog'' = Inr (JObj [(''box'', JStr ''b.png'')])
       \<and> (case getitem merged ''dialog'' of Inl e \<Rightarrow> Inl e | Inr v \<Rightarrow> subscript v ''entry'')
           = Inl (KeyError ''entry'')
       \<and> getitem merged ''name'' = Inr (JStr ''custom''))"
proof -
  have d: "distinct (map fst [(''dialog'', JObj [(''box'', JStr ''b.png'')])])"
    by simp
  have m: "(''dialog'', JObj [(''box'', JStr ''b.png'')])
             \<in> set [(''dialog'', JObj [(''box'', JStr ''b.png'')])]"
    by simp
  have g: "getitem default_configuration ''name'' = Inr (JStr ''custom'')"
    by (simp add: getitem_def default_configuration_def)
  have h: "getitem default_configuration ''dialog''
     = Inr (JObj [(''box'', JStr ''box.png''), (''entry'', JStr ''entry.png''),
                  (''bullet'', JStr ''bullet.png''), (''lock'', JStr ''lock.png''),
                  (''ratio'', JFloat (binary64 (6 / 10)))])"
    by (simp add: getitem_def default_configuration_def)
  from configuration_update_shallow [OF d m] g h show ?thesis
    by auto
qed

subsection \<open>The build directory and the failures of the validation\<close>

lemma prepare_build_directory_file:
  "fs w b = Some (File c) \<Longrightarrow>
   prepare_build_directory (JStr b) w =
     (Inl (SystemExit (- 1)),
      w\<lparr>events := events w @ [Print (''The specified build path '' @ quote b @ '' is a file'')]\<rparr>)"
  by (simp add: prepare_build_directory_def io_defs os_path_exists_def os_path_isfile_def)



lemma build_theme_missing:
  assumes "required_assets cfg = Some (d, ps)"
    and "fs w d \<noteq> Some Dir \<or> (\<exists>p \<in> set ps. \<not> os_path_isfile (fs w) p)"
  shows "\<exists>msgs. build_theme rt cfg w
           = (Inl (SystemExit (- 1)), w\<lparr>events := events w @ map Print msgs\<rparr>)"
proof -
  have "\<exists>msgs. check_input_assets cfg w
          = (Inl (SystemExit (- 1)), w\<lparr>events := events w @ map Print msgs\<rparr>)"
  proof (cases "fs w d = Some Dir")
    case True
    with assms(2) have "\<exists>p \<in> set ps. \<not> os_path_isfile (fs w) p" by simp
    from check_files_fail [OF this] True show ?thesis
      by (simp add: check_input_assets_typed [OF assms(1)])
  next
    case False
    then have "check_input_assets cfg w
          = (Inl (SystemExit (- 1)),
             w\<lparr>events := events w @ map Print [''Invalid assets directory '' @ quote d]\<rparr>)"
      by (simp add: check_input_assets_typed [OF assms(1)])
    then show ?thesis by blast
  qed
  then obtain msgs where
    "check_input_assets cfg w = (Inl (SystemExit (- 1)), w\<lparr>events := events w @ map Print msgs\<rparr>)"
    by blast
  then have "build_theme rt cfg w = (Inl (SystemExit (- 1)), w\<lparr>events := events w @ map Print msgs\<rparr>)"
    by (simp add: build_theme_def io_then_def io_bind_def)
  then show ?thesis by blast
qed

text \<open>
  C2. When a required asset is missing (the source directory is no directory, or one of the
  seven asset files is no regular file), the run ends with a status that is not zero, the
  file system is as it was, and the only effects are messages on the standard output: no
  directory is created, no descriptor, script or frame is written.
\<close>

theorem missing_asset_no_output:
  assumes "required_assets cfg = Some (d, ps)"
    and "fs w d \<noteq> Some Dir \<or> (\<exists>p \<in> set ps. \<not> os_path_isfile (fs w) p)"
  shows "\<exists>e w'. build_theme rt cfg w = (Inl e, w')
           \<and> (\<exists>n. exit_code e = Some n \<and> n \<noteq> 0)
           \<and> fs w' = fs w
           \<and> (\<exists>msgs. events w' = events w @ map Print msgs)"
proof -
  from build_theme_missing [OF assms] obtain msgs where
    "build_theme rt cfg w = (Inl (SystemExit (- 1)), w\<lparr>events := events w @ map Print msgs\<rparr>)"
    by blast
  then show ?thesis by auto
qed

theorem missing_asset_no_output_witness:
  "required_assets default_configuration
     = Some (''./source'',
             [''./source/animation.mp4'', ''./source/box.png'', ''./source/entry.png'',
              ''./source/bullet.png'', ''./source/lock.png'', ''./source/progress_box.png'',
              ''./source/progress_bar.png''])
   \<and> \<not> os_path_isfile (fs (incomplete_world ''ten seconds'')) ''./source/lock.png''
   \<and> (\<exists>e w'. build_theme sample_runtime default_configuration (incomplete_world ''ten seconds'')
                  = (Inl e, w')
          \<and> (\<exists>n. exit_code e = Some n \<and> n \<noteq> 0)
          \<and> fs w' = fs (incomplete_world ''ten seconds'')
          \<and> (\<exists>msgs. events w' = events (incomplete_world ''ten seconds'') @ map Print msgs))"
proof -
  let ?ps = "[''./source/animation.mp4'', ''./source/box.png'', ''./source/entry.png'',
              ''./source/bullet.png'', ''./source/lock.png'', ''./source/progress_box.png'',
              ''./source/progress_bar.png'']"
  have a: "required_assets default_configuration = Some (''./source'', ?ps)"
    by (simp add: required_assets_def default_configuration_def str_field_def obj_field_def)
  have b: "\<not> os_path_isfile (fs (incomplete_world ''ten seconds'')) ''./source/lock.png''"
    by (simp add: incomplete_world_def sample_files_def os_path_isfile_def)
  then have c: "fs (incomplete_world ''ten seconds'') ''./source'' \<noteq> Some Dir
                \<or> (\<exists>p \<in> set ?ps. \<not> os_path_isfile (fs (incomplete_world ''ten seconds'')) p)"
    by simp
  from missing_asset_no_output [OF a c] a b show ?thesis
    by blast
qed

text \<open>
  C9. When a required asset file is missing or the source directory is invalid, the run ends
  by \<open>sys.exit(-1)\<close>: its status is exactly \<open>-1\<close>, the status of the build path conflict.
\<close>

theorem missing_asset_exit_status:
  assumes "required_assets cfg = Some (d, ps)"
    and "fs w d \<noteq> Some Dir \<or> (\<exists>p \<in> set ps. \<not> os_path_isfile (fs w) p)"
  shows "fst (build_theme rt cfg w) = Inl (SystemExit (- 1))
         \<and> exit_code (SystemExit (- 1)) = Some (- 1)"
proof -
  from build_theme_missing [OF assms] obtain msgs where
    "build_theme rt cfg w = (Inl (SystemExit (- 1)), w\<lparr>events := events w @ map Print msgs\<rparr>)"
    by blast
  then show ?thesis by simp
qed

theorem missing_asset_exit_status_witness:
  "required_assets default_configuration
     = Some (''./source'',
             [''./source/animation.mp4'', ''./source/box.png'', ''./source/entry.png'',
              ''./source/bullet.png'', ''./source/lock.png'', ''./source/progress_box.png'',
              ''./source/progress_bar.png''])
   \<and> fs \<lparr>fs = Map.empty, events = []\<rparr> ''./source'' \<noteq> Some Dir
   \<and> fst (build_theme sample_runtime default_configuration \<lparr>fs = Map.empty, events = []\<rparr>)
       = Inl (SystemExit (- 1))"
proof -
  let ?ps = "[''./source/animation.mp4'', ''./source/box.png'', ''./source/entry.png'',
              ''./source/bullet.png'', ''./source/lock.png'', ''./source/progress_box.png'',
              ''./source/progress_bar.png'']"
  let ?w = "\<lparr>fs = Map.empty, events = []\<rparr>"
  have a: "required_assets default_configuration = Some (''./source'', ?ps)"
    by (simp add: required_assets_def default_configuration_def str_field_def obj_field_def)
  have b: "fs ?w ''./source'' \<noteq> Some Dir"
    by simp
  then have c: "fs ?w ''./source'' \<noteq> Some Dir \<or> (\<exists>p \<in> set ?ps. \<not> os_path_isfile (fs ?w) p)"
    by simp
  from missing_asset_exit_status [OF a c] a b show ?thesis
    by blast
qed

lemma str_field_getitem: "str_field cfg k = Some s \<Longrightarrow> getitem cfg k = Inr (JStr s)"
  by (auto simp: str_field_def getitem_def split: option.splits json.splits)

lemma check_files_fs: "check_files ps w = (r, w') \<Longrightarrow> fs w' = fs w"
proof (induction ps arbitrary: w)
  case Nil
  then show ?case by (auto simp: io_return_def)
next
  case (Cons p ps)
  show ?case
  proof (cases "os_path_isfile (fs w) p")
    case True
    with Cons.prems have "check_files ps
        (w\<lparr>events := events w @ [Print (''File '' @ quote p @ '' available'')]\<rparr>) = (r, w')"
      by (simp add: io_then_def io_bind_def check_file_exists_eq)
    from Cons.IH [OF this] show ?thesis by simp
  next
    case False
    with Cons.prems show ?thesis
      by (auto simp: io_then_def io_bind_def check_file_exists_eq)
  qed
qed

lemma build_theme_conflict:
  assumes "required_assets cfg = Some (d, ps)"
    and "str_field cfg ''build'' = Some b"
    and "fs w b = Some (File c)"
  shows "\<exists>msgs. build_theme rt cfg w
             = (Inl (SystemExit (- 1)), w\<lparr>events := events w @ map Print msgs\<rparr>)
           \<and> (fs w d = Some Dir \<and> (\<forall>p \<in> set ps. os_path_isfile (fs w) p) \<longrightarrow>
                check_input_assets cfg w
                  = (Inr (), w\<lparr>events := events w
                       @ map Print (map (\<lambda>p. ''File '' @ quote p @ '' available'') ps)\<rparr>)
              \<and> msgs = map (\<lambda>p. ''File '' @ quote p @ '' available'') ps
                        @ [''The specified build path '' @ quote b @ '' is a file''])"
proof (cases "fs w d = Some Dir \<and> (\<forall>p \<in> set ps. os_path_isfile (fs w) p)")
  case True
  let ?a = "map (\<lambda>p. ''File '' @ quote p @ '' available'') ps"
  let ?w = "w\<lparr>events := events w @ map Print ?a\<rparr>"
  have v: "check_input_assets cfg w = (Inr (), ?w)"
    using True by (simp add: check_input_assets_typed [OF assms(1)] check_files_ok comp_def)
  have "fs ?w b = Some (File c)"
    using assms(3) by simp
  from prepare_build_directory_file [OF this]
  have "build_theme rt cfg w
          = (Inl (SystemExit (- 1)),
             w\<lparr>events := events w
                  @ map Print (?a @ [''The specified build path '' @ quote b @ '' is a file''])\<rparr>)"
    by (simp add: build_theme_def io_then_def io_bind_def io_lift_def v
                  str_field_getitem [OF assms(2)])
  with v show ?thesis by blast
next
  case False
  then have "fs w d \<noteq> Some Dir \<or> (\<exists>p \<in> set ps. \<not> os_path_isfile (fs w) p)"
    by blast
  from build_theme_missing [OF assms(1) this] False show ?thesis
    by blast
qed

text \<open>
  C4, as the code has it. When the configured build path is a regular file, the run ends by
  \<open>sys.exit(-1)\<close>, the file system is as it was and the only effects are messages: no
  directory is created and nothing is written. The validation of the assets runs first:
  when every asset is present, it has completed and printed its seven messages before the
  message on the build path.
\<close>

theorem build_path_conflict:
  assumes "required_assets cfg = Some (d, ps)"
    and "str_field cfg ''build'' = Some b"
    and "fs w b = Some (File c)"
  shows "\<exists>msgs. build_theme rt cfg w
             = (Inl (SystemExit (- 1)), w\<lparr>events := events w @ map Print msgs\<rparr>)
           \<and> (fs w d = Some Dir \<and> (\<forall>p \<in> set ps. os_path_isfile (fs w) p) \<longrightarrow>
                check_input_assets cfg w
                  = (Inr (), w\<lparr>events := events w
                       @ map Print (map (\<lambda>p. ''File '' @ quote p @ '' available'') ps)\<rparr>)
              \<and> msgs = map (\<lambda>p. ''File '' @ quote p @ '' available'') ps
                        @ [''The specified build path '' @ quote b @ '' is a file''])"
  using assms by (rule build_theme_conflict)

lemma default_required_assets:
  "required_assets default_configuration
     = Some (''./source'',
             [''./source/animation.mp4'', ''./source/box.png'', ''./source/entry.png'',
              ''./source/bullet.png'', ''./source/lock.png'', ''./source/progress_box.png'',
              ''./source/progress_bar.png''])"
  by (simp add: required_assets_def default_configuration_def str_field_def obj_field_def)

lemma default_build: "str_field default_configuration ''build'' = Some ''./build''"
  by (simp add: default_configuration_def str_field_def)

lemma blocked_world_assets:
  "fs (blocked_world v) ''./source'' = Some Dir
   \<and> (\<forall>p \<in> set [''./source/animation.mp4'', ''./source/box.png'', ''./source/entry.png'',
              ''./source/bullet.png'', ''./source/lock.png'', ''./source/progress_box.png'',
              ''./source/progress_bar.png'']. os_path_isfile (fs (blocked_world v)) p)"
  by (simp add: blocked_world_def sample_files_def os_path_isfile_def)

lemma blocked_world_build: "fs (blocked_world v) ''./build'' = Some (File [])"
  by (simp add: blocked_world_def)

theorem build_path_conflict_witness:
  "required_assets default_configuration
     = Some (''./source'',
             [''./source/animation.mp4'', ''./source/box.png'', ''./source/entry.png'',
              ''./source/bullet.png'', ''./source/lock.png'', ''./source/progress_box.png'',
              ''./source/progress_bar.png''])
   \<and> str_field default_configuration ''build'' = Some ''./build''
   \<and> fs (blocked_world ''ten seconds'') ''./build'' = Some (File [])
   \<and> fst (build_theme sample_runtime default_configuration (blocked_world ''ten seconds''))
        = Inl (SystemExit (- 1))
   \<and> fs (snd (build_theme sample_runtime default_configuration (blocked_world ''ten seconds'')))
        = fs (blocked_world ''ten seconds'')
   \<and> last (events (snd (build_theme sample_runtime default_configuration
                             (blocked_world ''ten seconds''))))
        = Print (''The specified build path '' @ quote ''./build'' @ '' is a file'')"
proof -
  from build_path_conflict [OF default_required_assets default_build
         blocked_world_build [of "''ten seconds''"], where rt = sample_runtime]
    blocked_world_assets [of "''ten seconds''"]
  have "build_theme sample_runtime default_configuration (blocked_world ''ten seconds'')
          = (Inl (SystemExit (- 1)), (blocked_world ''ten seconds'')
              \<lparr>events := events (blocked_world ''ten seconds'')
                 @ map Print (map (\<lambda>p. ''File '' @ quote p @ '' available'')
                    [''./source/animation.mp4'', ''./source/box.png'', ''./source/entry.png'',
                     ''./source/bullet.png'', ''./source/lock.png'', ''./source/progress_box.png'',
                     ''./source/progress_bar.png'']
                    @ [''The specified build path '' @ quote ''./build'' @ '' is a file''])\<rparr>)"
    by auto
  then show ?thesis
    using default_required_assets default_build blocked_world_build by simp
qed

theorem build_path_conflict_counterexample:
  \<open>fs (blocked_world ''ten seconds'') ''./build'' = Some (File [])
   \<and> events (blocked_world ''ten seconds'') = []
   \<and> events (snd (check_input_assets default_configuration (blocked_world ''ten seconds'')))
       = [Print ''File './source/animation.mp4' available'',
          Print ''File './source/box.png' available'',
          Print ''File './source/entry.png' available'',
          Print ''File './source/bullet.png' available'',
          Print ''File './source/lock.png' available'',
          Print ''File './source/progress_box.png' available'',
          Print ''File './source/progress_bar.png' available'']
   \<and> events (snd (build_theme sample_runtime default_configuration (blocked_world ''ten seconds'')))
       = events (snd (check_input_assets default_configuration (blocked_world ''ten seconds'')))
         @ [Print ''The specified build path './build' is a file'']\<close>
proof -
  from build_theme_conflict [OF default_required_assets default_build
         blocked_world_build [of "''ten seconds''"], where rt = sample_runtime]
    blocked_world_assets [of "''ten seconds''"]
  obtain msgs where
    "build_theme sample_runtime default_configuration (blocked_world ''ten seconds'')
       = (Inl (SystemExit (- 1)), (blocked_world ''ten seconds'')
              \<lparr>events := events (blocked_world ''ten seconds'') @ map Print msgs\<rparr>)"
    "check_input_assets default_configuration (blocked_world ''ten seconds'')
       = (Inr (), (blocked_world ''ten seconds'')
              \<lparr>events := events (blocked_world ''ten seconds'')
                 @ map Print (map (\<lambda>p. ''File '' @ quote p @ '' available'')
                    [''./source/animation.mp4'', ''./source/box.png'', ''./source/entry.png'',
                     ''./source/bullet.png'', ''./source/lock.png'', ''./source/progress_box.png'',
                     ''./source/progress_bar.png''])\<rparr>)"
    "msgs = map (\<lambda>p. ''File '' @ quote p @ '' available'')
                    [''./source/animation.mp4'', ''./source/box.png'', ''./source/entry.png'',
                     ''./source/bullet.png'', ''./source/lock.png'', ''./source/progress_box.png'',
                     ''./source/progress_bar.png'']
            @ [''The specified build path '' @ quote ''./build'' @ '' is a file'']"
    by auto
  moreover have "events (blocked_world ''ten seconds'') = []"
    by (simp add: blocked_world_def)
  ultimately show ?thesis
    using blocked_world_build by (simp add: quote_def)
qed

subsection \<open>The command line and the exit codes\<close>

lemma configuration_filepath_fold_True:
  "fst (fold (\<lambda>(opt, arg) (custom, path). if opt = ''-c'' then (True, arg) else (custom, path))
          opts (True, p)) = True"
  by (induction opts arbitrary: p) (auto split: prod.splits)

lemma configuration_filepath_fold_False:
  "\<not> fst (fold (\<lambda>(opt, arg) (custom, path). if opt = ''-c'' then (True, arg) else (custom, path))
          opts (False, p)) \<Longrightarrow>
   fold (\<lambda>(opt, arg) (custom, path). if opt = ''-c'' then (True, arg) else (custom, path))
          opts (False, p) = (False, p)"
proof (induction opts arbitrary: p)
  case Nil
  show ?case by simp
next
  case (Cons x opts)
  obtain opt arg where x: "x = (opt, arg)" by (cases x)
  show ?case
  proof (cases "opt = ''-c''")
    case True
    with Cons.prems x configuration_filepath_fold_True [of opts arg] show ?thesis
      by simp
  next
    case False
    with Cons.prems x Cons.IH [of p] show ?thesis by simp
  qed
qed

lemma configuration_filepath_default:
  "\<not> fst (configuration_filepath opts) \<Longrightarrow> configuration_filepath opts = (False, ''config.json'')"
  unfolding configuration_filepath_def by (rule configuration_filepath_fold_False)

lemma getopt_unrecognized:
  assumes "2 \<le> length a" and "hd a = CHR ''-''" and "a ! 1 \<noteq> CHR ''c''" and "a \<noteq> ''--''"
  shows "getopt (a # rest) = Inl GetoptError"
proof -
  obtain x y zs where a: "a = x # y # zs"
    using assms(1) by (cases a; cases "tl a") auto
  with assms show ?thesis by auto
qed

lemma main_getopt_error:
  "getopt args = Inl e \<Longrightarrow>
   main rt prog args w
     = (Inl (SystemExit 1), w\<lparr>events := events w @ [Print (prog @ '' -c [path_to_configfile]'')]\<rparr>)"
  by (simp add: main_def io_defs)

lemma main_custom_missing:
  assumes "getopt args = Inr opts" and "configuration_filepath opts = (True, path)"
    and "open_read (fs w) path = Inl FileNotFoundError"
  shows "main rt prog args w
     = (Inl (SystemExit 2),
        w\<lparr>events := events w
             @ [Print (''The provided configuration file '' @ quote path @ '' doesn't exist.'')]\<rparr>)"
  using assms by (simp add: main_def load_configuration_def read_configuration_def io_defs)

lemma open_error_plain_name:
  "open_error f ''config.json'' = None" "open_error f ''missing.json'' = None"
  "open_error f ''theme.json'' = None"
  by code_simp+

lemma main_default_missing:
  assumes "getopt args = Inr opts" and "\<not> fst (configuration_filepath opts)"
    and "fs w ''config.json'' = None"
  shows "main rt prog args w
     = build_theme rt default_configuration
         (w\<lparr>events := events w
              @ [Print (''Default configuration file 'config.json' doesn't exist. ''
                        @ ''Continue with default built-in configuration'')]\<rparr>)"
  using assms(1) configuration_filepath_default [OF assms(2)]
    open_read_missing [of "fs w" "''config.json''"] open_error_plain_name(1) [of "fs w"] assms(3)
  by (simp add: main_def load_configuration_def read_configuration_def io_defs)

lemma main_not_a_directory:
  assumes "getopt args = Inr opts" and "configuration_filepath opts = (custom, path)"
    and "open_read (fs w) path = Inl NotADirectoryError"
  shows "main rt prog args w = (Inl NotADirectoryError, w)"
  using assms by (simp add: main_def load_configuration_def read_configuration_def io_defs)

text \<open>
  C8, as the code has it. A build path that is a regular file ends the run by
  \<open>sys.exit(-1)\<close> (in the preparer, and for a whole run on a configuration typed as in the
  data model). An error of \<open>getopt\<close>, which an argument whose first option letter is not
  \<open>c\<close> raises, ends it by \<open>sys.exit(1)\<close>. A configuration file named by \<open>-c\<close> for which
  \<open>open\<close> raises \<open>FileNotFoundError\<close> ends it by \<open>sys.exit(2)\<close>: the path is empty, or it
  is absent, has no zero byte, keeps the limits on lengths and has no regular file among
  the directories above it. Without \<open>-c\<close>, a missing \<open>config.json\<close> only prints a message,
  and the run goes on with the built-in configuration.
\<close>

theorem exit_codes:
  "(required_assets cfg = Some (d, ps) \<and> str_field cfg ''build'' = Some b
      \<and> fs w b = Some (File c)
      \<longrightarrow> fst (build_theme rt cfg w) = Inl (SystemExit (- 1)))
   \<and> (fs w b = Some (File c) \<longrightarrow> fst (prepare_build_directory (JStr b) w) = Inl (SystemExit (- 1)))
   \<and> (getopt args = Inl e \<longrightarrow> fst (main rt prog args w) = Inl (SystemExit 1))
   \<and> (2 \<le> length a \<and> hd a = CHR ''-'' \<and> a ! 1 \<noteq> CHR ''c'' \<and> a \<noteq> ''--''
      \<longrightarrow> getopt (a # rest) = Inl GetoptError)
   \<and> (getopt args = Inr opts \<and> configuration_filepath opts = (True, path)
      \<and> (path = [] \<or> open_error (fs w) path = None \<and> fs w path = None)
      \<longrightarrow> fst (main rt prog args w) = Inl (SystemExit 2))
   \<and> (getopt args = Inr opts \<and> \<not> fst (configuration_filepath opts) \<and> fs w ''config.json'' = None
      \<longrightarrow> main rt prog args w
           = build_theme rt default_configuration
               (w\<lparr>events := events w
                    @ [Print (''Default configuration file 'config.json' doesn't exist. ''
                              @ ''Continue with default built-in configuration'')]\<rparr>))"
proof (intro conjI impI)
  assume "required_assets cfg = Some (d, ps) \<and> str_field cfg ''build'' = Some b
            \<and> fs w b = Some (File c)"
  then have "required_assets cfg = Some (d, ps)" "str_field cfg ''build'' = Some b"
    "fs w b = Some (File c)" by simp_all
  from build_theme_conflict [OF this, of rt]
  show "fst (build_theme rt cfg w) = Inl (SystemExit (- 1))" by auto
next
  assume "fs w b = Some (File c)"
  then show "fst (prepare_build_directory (JStr b) w) = Inl (SystemExit (- 1))"
    by (simp add: prepare_build_directory_file)
next
  assume "getopt args = Inl e"
  then show "fst (main rt prog args w) = Inl (SystemExit 1)"
    by (simp add: main_getopt_error)
next
  assume "2 \<le> length a \<and> hd a = CHR ''-'' \<and> a ! 1 \<noteq> CHR ''c'' \<and> a \<noteq> ''--''"
  then have "2 \<le> length a" and "hd a = CHR ''-''" and "a ! 1 \<noteq> CHR ''c''" and "a \<noteq> ''--''"
    by blast+
  then show "getopt (a # rest) = Inl GetoptError"
    by (rule getopt_unrecognized)
next
  assume a: "getopt args = Inr opts \<and> configuration_filepath opts = (True, path)
      \<and> (path = [] \<or> open_error (fs w) path = None \<and> fs w path = None)"
  then have "open_read (fs w) path = Inl FileNotFoundError"
    by (auto simp: open_read_empty open_read_missing)
  with a show "fst (main rt prog args w) = Inl (SystemExit 2)"
    by (simp add: main_custom_missing)
next
  assume "getopt args = Inr opts \<and> \<not> fst (configuration_filepath opts) \<and> fs w ''config.json'' = None"
  then show "main rt prog args w
           = build_theme rt default_configuration
               (w\<lparr>events := events w
                    @ [Print (''Default configuration file 'config.json' doesn't exist. ''
                              @ ''Continue with default built-in configuration'')]\<rparr>)"
    by (simp add: main_default_missing)
qed


lemma sample_world_no_config:
  "fs (sample_world v) ''config.json'' = None \<and> fs (sample_world v) ''missing.json'' = None"
  by (simp add: sample_world_def sample_files_def)

theorem exit_codes_witness:
  "fst (build_theme sample_runtime default_configuration (blocked_world ''ten seconds''))
     = Inl (SystemExit (- 1))
   \<and> fst (prepare_build_directory (JStr ''./build'') (blocked_world ''ten seconds''))
     = Inl (SystemExit (- 1))
   \<and> getopt [''-x''] = Inl GetoptError
   \<and> fst (main sample_runtime ''generate.py'' [''-x''] (sample_world ''ten seconds''))
     = Inl (SystemExit 1)
   \<and> getopt [''-c'', ''missing.json''] = Inr [(''-c'', ''missing.json'')]
   \<and> fst (main sample_runtime ''generate.py'' [''-c'', ''missing.json''] (sample_world ''ten seconds''))
     = Inl (SystemExit 2)
   \<and> getopt [] = Inr []
   \<and> main sample_runtime ''generate.py'' [] (sample_world ''ten seconds'')
     = build_theme sample_runtime default_configuration
         ((sample_world ''ten seconds'')
            \<lparr>events := events (sample_world ''ten seconds'')
               @ [Print (''Default configuration file 'config.json' doesn't exist. ''
                         @ ''Continue with default built-in configuration'')]\<rparr>)"
proof -
  let ?w = "sample_world ''ten seconds''"
  let ?b = "blocked_world ''ten seconds''"
  have g1: "getopt [''-x''] = Inl GetoptError"
    using exit_codes [where a = "''-x''" and rest = "[]"] by simp
  have g2: "getopt [''-c'', ''missing.json''] = Inr [(''-c'', ''missing.json'')]"
    by simp
  have g3: "getopt [] = Inr []"
    by simp
  have f2: "configuration_filepath [(''-c'', ''missing.json'')] = (True, ''missing.json'')"
    by (simp add: configuration_filepath_def)
  have f3: "\<not> fst (configuration_filepath [])"
    by (simp add: configuration_filepath_def)
  have c1: "fst (build_theme sample_runtime default_configuration ?b) = Inl (SystemExit (- 1))"
    using exit_codes [where cfg = default_configuration and w = ?b and b = "''./build''"
                        and c = "[]" and rt = sample_runtime]
      default_required_assets default_build blocked_world_build [of "''ten seconds''"]
    by simp
  have c2: "fst (prepare_build_directory (JStr ''./build'') ?b) = Inl (SystemExit (- 1))"
    using exit_codes [where w = ?b and b = "''./build''" and c = "[]"]
      blocked_world_build [of "''ten seconds''"]
    by simp
  have c3: "fst (main sample_runtime ''generate.py'' [''-x''] ?w) = Inl (SystemExit 1)"
    using exit_codes [where args = "[''-x'']" and e = GetoptError and rt = sample_runtime
                        and prog = "''generate.py''" and w = ?w] g1
    by simp
  have c5: "fst (main sample_runtime ''generate.py'' [''-c'', ''missing.json''] ?w)
              = Inl (SystemExit 2)"
    using exit_codes [where args = "[''-c'', ''missing.json'']" and opts = "[(''-c'', ''missing.json'')]"
                        and path = "''missing.json''" and rt = sample_runtime
                        and prog = "''generate.py''" and w = ?w]
      g2 f2 sample_world_no_config [of "''ten seconds''"] open_error_plain_name(2)
    by simp
  have c6: "main sample_runtime ''generate.py'' [] ?w
     = build_theme sample_runtime default_configuration
         (?w\<lparr>events := events ?w
               @ [Print (''Default configuration file 'config.json' doesn't exist. ''
                         @ ''Continue with default built-in configuration'')]\<rparr>)"
    using exit_codes [where args = "[]" and opts = "[]" and rt = sample_runtime
                        and prog = "''generate.py''" and w = ?w]
      g3 f3 sample_world_no_config [of "''ten seconds''"]
    by simp
  from c1 c2 g1 c3 g2 c5 g3 c6 show ?thesis
    by blast
qed

text \<open>
  C8 as the specification words it does not hold of every configuration file that does not
  exist: when a component of the path given to \<open>-c\<close> is a regular file, \<open>open\<close> raises
  \<open>NotADirectoryError\<close>, which \<open>main\<close> does not catch, and the interpreter ends with
  status 1, not 2. Here the path goes through the image \<open>./source/box.png\<close>.
\<close>

lemma sample_world_nested:
  "fs (sample_world ''ten seconds'') ''./source/box.png/cfg.json'' = None"
  "open_read (fs (sample_world ''ten seconds'')) ''./source/box.png/cfg.json''
     = Inl NotADirectoryError"
  by code_simp+

theorem exit_codes_counterexample:
  "getopt [''-c'', ''./source/box.png/cfg.json''] = Inr [(''-c'', ''./source/box.png/cfg.json'')]
   \<and> configuration_filepath [(''-c'', ''./source/box.png/cfg.json'')]
       = (True, ''./source/box.png/cfg.json'')
   \<and> fs (sample_world ''ten seconds'') ''./source/box.png/cfg.json'' = None
   \<and> \<not> os_path_exists (fs (sample_world ''ten seconds'')) ''./source/box.png/cfg.json''
   \<and> main sample_runtime ''generate.py'' [''-c'', ''./source/box.png/cfg.json'']
        (sample_world ''ten seconds'')
       = (Inl NotADirectoryError, sample_world ''ten seconds'')
   \<and> exit_code NotADirectoryError = Some 1
   \<and> fst (main sample_runtime ''generate.py'' [''-c'', ''./source/box.png/cfg.json'']
        (sample_world ''ten seconds'')) \<noteq> Inl (SystemExit 2)"
proof -
  have g: "getopt [''-c'', ''./source/box.png/cfg.json'']
             = Inr [(''-c'', ''./source/box.png/cfg.json'')]"
    by simp
  have c: "configuration_filepath [(''-c'', ''./source/box.png/cfg.json'')]
             = (True, ''./source/box.png/cfg.json'')"
    by (simp add: configuration_filepath_def)
  have m: "main sample_runtime ''generate.py'' [''-c'', ''./source/box.png/cfg.json'']
             (sample_world ''ten seconds'')
           = (Inl NotADirectoryError, sample_world ''ten seconds'')"
    using g c sample_world_nested(2) by (rule main_not_a_directory)
  from g c m sample_world_nested(1) show ?thesis
    by (simp add: os_path_exists_def)
qed

subsection \<open>What the steps leave in the file system\<close>

lemma fs_bind_keep:
  assumes "\<And>w. fs (snd (m w)) = fs w"
    and "\<And>x w. fs (snd (f x w)) = fs w"
  shows "fs (snd (io_bind m f w)) = fs w"
proof (cases "m w")
  case (Pair r w1)
  with assms(1) [of w] have s1: "fs w1 = fs w" by simp
  show ?thesis
  proof (cases r)
    case (Inl e)
    with Pair s1 show ?thesis by (simp add: io_bind_def)
  next
    case (Inr x)
    with Pair s1 assms(2) [of x w1] show ?thesis by (simp add: io_bind_def)
  qed
qed

lemma fs_then_keep:
  assumes "\<And>w. fs (snd (m w)) = fs w"
    and "\<And>w. fs (snd (k w)) = fs w"
  shows "fs (snd (io_then m k w)) = fs w"
  unfolding io_then_def using assms by (rule fs_bind_keep)

lemma fs_simple [simp]:
  "fs (snd (io_lift r w)) = fs w"
  "fs (snd (print s w)) = fs w"
  "fs (snd (sys_exit n w)) = fs w"
  "fs (snd (io_return x w)) = fs w"
  "fs (snd (check_file_exists p w)) = fs w"
  by (simp_all add: io_defs check_file_exists_eq)

lemma fs_check_asset [simp]: "fs (snd (check_asset d r w)) = fs w"
  unfolding check_asset_def by (rule fs_bind_keep) simp_all

lemma fs_check_input_assets: "fs (snd (check_input_assets cfg w)) = fs w"
  unfolding check_input_assets_def
  apply (rule fs_bind_keep, simp)
  apply (rule fs_bind_keep, simp)
  subgoal for source_dir w1 d w2
    apply (cases "\<not> os_path_exists (fs w2) d \<or> os_path_isfile (fs w2) d")
     apply (simp only: if_True)
     apply (rule fs_then_keep; simp)
    apply (simp only: if_False)
    apply (intro fs_then_keep fs_bind_keep fs_check_asset fs_simple)
    done
  done

lemma check_input_assets_fsD:
  "check_input_assets cfg w = (r, w') \<Longrightarrow> fs w' = fs w"
  using fs_check_input_assets [of cfg w] by simp

lemma prepare_build_directory_files:
  "prepare_build_directory path w = (r, w') \<Longrightarrow>
   (fs w' p = Some (File c)) = (fs w p = Some (File c))"
  by (auto simp: prepare_build_directory_def io_defs os_makedirs_def os_path_exists_def
           split: sum.splits if_splits option.splits)

lemma write_plymouth_file_success:
  "write_plymouth_file cfg w = (Inr (), w') \<Longrightarrow>
   \<exists>d nm td dt. descriptor_path cfg = Inr d \<and> getitem cfg ''name'' = Inr nm
      \<and> getitem cfg ''theme_directory'' = Inr td \<and> plymouth_text cfg nm td = Inr dt
      \<and> fs w' = (fs w)(d \<mapsto> File dt)"
  by (auto simp: write_plymouth_file_def descriptor_path_def io_defs open_w_def file_write_def
           dest!: store_InrD split: sum.splits if_splits)

lemma write_plymouth_script_success:
  "write_plymouth_script cfg n w = (Inr (), w') \<Longrightarrow>
   \<exists>s stx. script_path cfg = Inr s \<and> script_text n = Inr stx \<and> fs w' = (fs w)(s \<mapsto> File stx)"
  by (auto simp: write_plymouth_script_def script_path_def io_defs open_w_def file_write_def
           dest!: store_InrD split: sum.splits if_splits)

lemma write_frames_other:
  "\<forall>i. p \<noteq> frame_name out i \<Longrightarrow> fs (snd (write_frames out i xs w)) p = fs w p"
  by (induction xs arbitrary: i w) (auto dest!: store_InrD split: sum.splits if_splits)

lemma write_frames_otherD:
  "write_frames out i xs w = (r, w') \<Longrightarrow> \<forall>i. p \<noteq> frame_name out i \<Longrightarrow> fs w' p = fs w p"
  using write_frames_other [of p out i xs w] by simp

lemma extract_success:
  assumes "extract_frames_from_video rt v outp fps w = (Inr n, w')"
  shows "\<exists>c st. fs w v = Some (File c) \<and> ffprobe rt c = Inr st
     \<and> number_of_extracts (duration st) fps = Inr n
     \<and> (\<forall>out p. fmt outp = Inr out \<longrightarrow> (\<forall>i. p \<noteq> frame_name out i)
            \<longrightarrow> fs w' p = fs w p)"
  using assms
  by (auto simp: extract_frames_from_video_def io_defs ffmpeg_probe_def ffmpeg_run_def Let_def
                 output_pattern_def
           dest: write_frames_otherD
           split: sum.splits prod.splits option.splits node.splits if_splits)


lemma paths_shape:
  assumes "descriptor_path cfg = Inr d" and "script_path cfg = Inr s"
  shows "\<exists>x. d = x @ ''.plymouth'' \<and> s = x @ ''.script''"
  using assms
  by (auto simp: descriptor_path_def script_path_def split: sum.splits)

lemma descriptor_path_suffix:
  "descriptor_path cfg = Inr d \<Longrightarrow> \<exists>x. d = x @ ''.plymouth''"
  by (auto simp: descriptor_path_def split: sum.splits)

lemma descriptor_not_frame:
  assumes "descriptor_path cfg = Inr d"
  shows "d \<noteq> frame_name out i"
proof
  assume e: "d = frame_name out i"
  from descriptor_path_suffix [OF assms] obtain x where x: "d = x @ ''.plymouth''"
    by blast
  have "last d = CHR ''h''"
    unfolding x by simp
  moreover have "last d = CHR ''g''"
  proof -
    have "d = (out @ ''/animation_frame_'' @ str_int i) @ ''.png''"
      using e by (simp add: frame_name_def)
    then show ?thesis
      by simp
  qed
  ultimately show False by simp
qed

subsection \<open>The order of the steps\<close>

lemma steps_bind_keep:
  assumes "\<And>w. steps (snd (m w)) = steps w"
    and "\<And>x w. steps (snd (f x w)) = steps w"
  shows "steps (snd (io_bind m f w)) = steps w"
proof (cases "m w")
  case (Pair r w1)
  with assms(1) [of w] have s1: "steps w1 = steps w" by simp
  show ?thesis
  proof (cases r)
    case (Inl e)
    with Pair s1 show ?thesis by (simp add: io_bind_def)
  next
    case (Inr x)
    with Pair s1 assms(2) [of x w1] show ?thesis by (simp add: io_bind_def)
  qed
qed

lemma steps_then_keep:
  assumes "\<And>w. steps (snd (m w)) = steps w"
    and "\<And>w. steps (snd (k w)) = steps w"
  shows "steps (snd (io_then m k w)) = steps w"
  unfolding io_then_def using assms by (rule steps_bind_keep)

lemma steps_lift [simp]: "steps (snd (io_lift r w)) = steps w"
  by (simp add: io_lift_def)

lemma steps_print [simp]: "steps (snd (print s w)) = steps w"
  by (simp add: print_def steps_def)

lemma steps_sys_exit [simp]: "steps (snd (sys_exit n w)) = steps w"
  by (simp add: sys_exit_def io_raise_def)

lemma steps_return [simp]: "steps (snd (io_return x w)) = steps w"
  by (simp add: io_return_def)

lemma steps_check_file_exists [simp]: "steps (snd (check_file_exists p w)) = steps w"
  by (simp add: check_file_exists_eq steps_def)

lemma steps_check_asset [simp]: "steps (snd (check_asset d r w)) = steps w"
  unfolding check_asset_def by (rule steps_bind_keep) simp_all

lemma steps_check_input_assets: "steps (snd (check_input_assets cfg w)) = steps w"
  unfolding check_input_assets_def
  apply (rule steps_bind_keep, simp)
  apply (rule steps_bind_keep, simp)
  subgoal for source_dir w1 d w2
    apply (cases "\<not> os_path_exists (fs w2) d \<or> os_path_isfile (fs w2) d")
     apply (simp only: if_True)
     apply (rule steps_then_keep; simp)
    apply (simp only: if_False)
    apply (intro steps_then_keep steps_bind_keep steps_check_asset steps_lift)
    done
  done

lemma steps_os_makedirs [simp]: "steps (snd (os_makedirs p w)) = steps w"
  by (simp add: os_makedirs_def steps_def split: option.splits)

lemma steps_prepare_build_directory: "steps (snd (prepare_build_directory path w)) = steps w"
  unfolding prepare_build_directory_def
  apply (rule steps_bind_keep, simp)
  subgoal for p w1
    apply (cases "os_path_exists (fs w1) p"; cases "os_path_isfile (fs w1) p")
       apply (simp_all only: if_True if_False)
       apply (intro steps_then_keep steps_print steps_sys_exit steps_os_makedirs | rule steps_print)+
    done
  done


lemma write_plymouth_file_steps:
  "write_plymouth_file cfg w = (r, w') \<Longrightarrow>
   (steps w' = steps w \<and> r \<noteq> Inr ())
   \<or> (\<exists>d. descriptor_path cfg = Inr d \<and> steps w' = steps w @ [WriteFile d])"
  by (auto simp: write_plymouth_file_def descriptor_path_def io_defs open_w_def file_write_def
                 steps_def split: sum.splits)

lemma write_plymouth_script_steps:
  "write_plymouth_script cfg n w = (r, w') \<Longrightarrow>
   (steps w' = steps w \<and> r \<noteq> Inr ())
   \<or> (\<exists>s. script_path cfg = Inr s \<and> steps w' = steps w @ [WriteFile s])"
  by (auto simp: write_plymouth_script_def script_path_def io_defs open_w_def file_write_def
                 steps_def split: sum.splits)

lemma write_frames_events: "events (snd (write_frames out i xs w)) = events w"
  by (induction xs arbitrary: i w) (auto split: sum.splits)

lemma ffmpeg_run_steps:
  "steps (snd (ffmpeg_run rt c wd fps out w))
     = steps w @ [RunFFmpeg (out @ ''/animation_frame_%d.png'')]"
  by (simp add: ffmpeg_run_def Let_def steps_def write_frames_events split: option.splits)

lemma ffmpeg_probe_steps:
  "steps (snd (ffmpeg_probe rt v w)) = steps w @ [Probe v]"
  by (simp add: ffmpeg_probe_def steps_def split: option.splits node.splits)


lemma ffmpeg_run_stepsD:
  "ffmpeg_run rt c wd fps out w = (r, w') \<Longrightarrow>
   steps w' = steps w @ [RunFFmpeg (out @ ''/animation_frame_%d.png'')]"
  using ffmpeg_run_steps [of rt c wd fps out w] by simp

lemma ffmpeg_probe_stepsD:
  "ffmpeg_probe rt v w = (r, w') \<Longrightarrow> steps w' = steps w @ [Probe v]"
  using ffmpeg_probe_steps [of rt v w] by simp

lemma steps_events_append [simp]:
  "steps (w\<lparr>events := events w @ es\<rparr>) = steps w @ filter is_step es"
  by (simp add: steps_def)

lemma extract_steps:
  assumes "extract_frames_from_video rt v out fps w = (r, w')"
  shows "(steps w' = steps w @ [Probe v] \<and> (\<forall>n. r \<noteq> Inr n))
         \<or> (\<exists>p. steps w' = steps w @ [Probe v, RunFFmpeg p])"
  using assms
  by (auto simp: extract_frames_from_video_def io_defs
           dest!: ffmpeg_run_stepsD ffmpeg_probe_stepsD
           split: sum.splits prod.splits)


lemma check_input_assets_stepsD:
  "check_input_assets cfg w = (r, w') \<Longrightarrow> steps w' = steps w"
  using steps_check_input_assets [of cfg w] by simp

lemma prepare_build_directory_stepsD:
  "prepare_build_directory path w = (r, w') \<Longrightarrow> steps w' = steps w"
  using steps_prepare_build_directory [of path w] by simp

lemma write_plymouth_file_trace:
  assumes "write_plymouth_file cfg w = (r, w')"
  shows "(steps w' = steps w \<and> r \<noteq> Inr ())
   \<or> (\<exists>d post. descriptor_path cfg = Inr d \<and> steps w' = steps w @ [WriteFile d]
         \<and> events w' = events w @ WriteFile d # post
         \<and> (r = Inr () \<longrightarrow>
              (\<exists>nm td dt. getitem cfg ''name'' = Inr nm \<and> getitem cfg ''theme_directory'' = Inr td
                 \<and> plymouth_text cfg nm td = Inr dt \<and> fs w' d = Some (File dt))))"
  using assms
  by (auto simp: write_plymouth_file_def descriptor_path_def io_defs open_w_def file_write_def
                 steps_def
           dest!: store_InrD split: sum.splits)

lemma write_frames_eventsD:
  "write_frames out i xs w = (r, w') \<Longrightarrow> events w' = events w"
  using write_frames_events [of out i xs w] by simp

lemma write_frames_elsewhere:
  "\<forall>out i. p \<noteq> frame_name out i \<Longrightarrow> write_frames out i xs w = (r, w') \<Longrightarrow> fs w' p = fs w p"
  using write_frames_other [of p out i xs w] by simp

lemma extract_events:
  assumes "extract_frames_from_video rt v outp fps w = (r, w')"
  shows "\<exists>post. events w' = events w @ post"
  using assms
  by (auto simp: extract_frames_from_video_def io_defs ffmpeg_probe_def ffmpeg_run_def Let_def
                 output_pattern_def
           dest!: write_frames_eventsD
           split: sum.splits prod.splits option.splits node.splits if_splits)

lemma extract_elsewhere:
  assumes "extract_frames_from_video rt v outp fps w = (r, w')"
    and "\<forall>out i. q \<noteq> frame_name out i"
  shows "fs w' q = fs w q"
  using assms
  by (auto simp: extract_frames_from_video_def io_defs ffmpeg_probe_def ffmpeg_run_def Let_def
                 output_pattern_def
           dest: write_frames_elsewhere
           split: sum.splits prod.splits option.splits node.splits if_splits)

lemma script_trace:
  assumes "write_plymouth_script cfg n w = (r, w')"
  shows "(\<exists>post. events w' = events w @ post)
     \<and> (\<forall>q. script_path cfg \<noteq> Inr q \<longrightarrow> fs w' q = fs w q)"
  using assms
  by (auto simp: write_plymouth_script_def script_path_def io_defs open_w_def file_write_def
           dest!: store_InrD split: sum.splits)

lemma descriptor_not_script:
  "descriptor_path cfg = Inr d \<Longrightarrow> script_path cfg \<noteq> Inr d"
  using paths_shape [of cfg d d] by auto

lemma extraction_stage:
  assumes "extraction rt cfg w = (r, w')"
  shows "(w' = w \<and> (\<forall>n. r \<noteq> Inr n))
     \<or> (\<exists>v outp fps. configured_video cfg = Inr v
           \<and> extract_frames_from_video rt v outp fps w = (r, w'))"
  using assms by (auto simp: io_defs configured_video_def split: sum.splits)

lemma after_descriptor:
  assumes run: "io_bind (extraction rt cfg) (write_plymouth_script cfg) w = (r, w')"
    and d: "descriptor_path cfg = Inr d"
  shows "fs w' d = fs w d \<and> (\<exists>post. events w' = events w @ post)
     \<and> ((steps w' = steps w \<and> r \<noteq> Inr ())
        \<or> (\<exists>v. configured_video cfg = Inr v
              \<and> ((steps w' = steps w @ [Probe v] \<and> r \<noteq> Inr ())
                 \<or> (\<exists>p. steps w' = steps w @ [Probe v, RunFFmpeg p] \<and> r \<noteq> Inr ())
                 \<or> (\<exists>p s. script_path cfg = Inr s
                       \<and> steps w' = steps w @ [Probe v, RunFFmpeg p, WriteFile s]))))"
proof -
  obtain re we where e: "extraction rt cfg w = (re, we)"
    by (cases "extraction rt cfg w")
  from extraction_stage [OF e] show ?thesis
  proof
    assume "we = w \<and> (\<forall>n. re \<noteq> Inr n)"
    then obtain x where "we = w" "re = Inl x"
      by (cases re) auto
    with run e have "r = Inl x" "w' = w"
      by (simp_all add: io_bind_def)
    then show ?thesis by simp
  next
    assume "\<exists>v outp fps. configured_video cfg = Inr v
           \<and> extract_frames_from_video rt v outp fps w = (re, we)"
    then obtain v outp fps where v: "configured_video cfg = Inr v"
      and x: "extract_frames_from_video rt v outp fps w = (re, we)"
      by blast
    from extract_events [OF x]
    obtain post1 where e1: "events we = events w @ post1"
      by blast
    have f1: "fs we d = fs w d"
      using x descriptor_not_frame [OF d] by (auto intro: extract_elsewhere)
    show ?thesis
    proof (cases re)
      case (Inl x1)
      with run e have rw: "r = Inl x1" "w' = we"
        by (simp_all add: io_bind_def)
      from extract_steps [OF x] rw v e1 f1 show ?thesis
        by auto
    next
      case (Inr n)
      with run e have s: "write_plymouth_script cfg n we = (r, w')"
        by (simp add: io_bind_def)
      from extract_steps [OF x] Inr obtain p where
        p: "steps we = steps w @ [Probe v, RunFFmpeg p]"
        by auto
      from script_trace [OF s] descriptor_not_script [OF d]
      obtain post2 where e2: "events w' = events we @ post2" and f2: "fs w' d = fs we d"
        by blast
      from e1 e2 have ev: "events w' = events w @ (post1 @ post2)"
        by simp
      from write_plymouth_script_steps [OF s] p
      have "(steps w' = steps w @ [Probe v, RunFFmpeg p] \<and> r \<noteq> Inr ())
         \<or> (\<exists>s. script_path cfg = Inr s
               \<and> steps w' = steps w @ [Probe v, RunFFmpeg p, WriteFile s])"
        by auto
      with v f1 f2 ev show ?thesis
        by metis
    qed
  qed
qed

lemma build_theme_front:
  assumes "build_theme rt cfg w = (r, w')"
  shows "(steps w' = steps w \<and> r \<noteq> Inr ())
     \<or> (\<exists>wa bp wb rc wc. check_input_assets cfg w = (Inr (), wa)
           \<and> getitem cfg ''build'' = Inr bp
           \<and> prepare_build_directory bp wa = (Inr (), wb)
           \<and> write_plymouth_file cfg wb = (rc, wc)
           \<and> (case rc of
                 Inl e \<Rightarrow> r = Inl e \<and> w' = wc
               | Inr u \<Rightarrow> io_bind (extraction rt cfg) (write_plymouth_script cfg) wc = (r, w')))"
proof -
  obtain ra wa where a: "check_input_assets cfg w = (ra, wa)"
    by (cases "check_input_assets cfg w")
  note sa = check_input_assets_stepsD [OF a]
  show ?thesis
  proof (cases ra)
    case (Inl e)
    with assms a sa show ?thesis
      by (auto simp: build_theme_def io_bind_def io_then_def)
  next
    case ra: (Inr u)
    show ?thesis
    proof (cases "getitem cfg ''build''")
      case (Inl e)
      with assms a ra sa show ?thesis
        by (auto simp: build_theme_def io_bind_def io_then_def io_lift_def)
    next
      case bp: (Inr bp)
      obtain rb wb where b: "prepare_build_directory bp wa = (rb, wb)"
        by (cases "prepare_build_directory bp wa")
      note sb = prepare_build_directory_stepsD [OF b]
      show ?thesis
      proof (cases rb)
        case (Inl e)
        with assms a ra bp b sa sb show ?thesis
          by (auto simp: build_theme_def io_bind_def io_then_def io_lift_def)
      next
        case rb: (Inr u')
        obtain rc wc where c: "write_plymouth_file cfg wb = (rc, wc)"
          by (cases "write_plymouth_file cfg wb")
        have "case rc of
                 Inl e \<Rightarrow> r = Inl e \<and> w' = wc
               | Inr u \<Rightarrow> io_bind (extraction rt cfg) (write_plymouth_script cfg) wc = (r, w')"
          using assms a ra bp b rb c
          by (auto simp: build_theme_def io_bind_def io_then_def io_lift_def split: sum.splits)
        with a ra bp b rb c show ?thesis
          by auto
      qed
    qed
  qed
qed

lemma build_theme_trace:
  assumes "build_theme rt cfg w = (r, w')"
  shows "(steps w' = steps w \<and> r \<noteq> Inr ())
     \<or> (\<exists>wa bp wb d post. check_input_assets cfg w = (Inr (), wa)
           \<and> getitem cfg ''build'' = Inr bp
           \<and> prepare_build_directory bp wa = (Inr (), wb)
           \<and> descriptor_path cfg = Inr d
           \<and> events w' = events wb @ WriteFile d # post
           \<and> ((steps w' = steps w @ [WriteFile d] \<and> r \<noteq> Inr ())
              \<or> (\<exists>v nm td dt. configured_video cfg = Inr v
                    \<and> getitem cfg ''name'' = Inr nm \<and> getitem cfg ''theme_directory'' = Inr td
                    \<and> plymouth_text cfg nm td = Inr dt \<and> fs w' d = Some (File dt)
                    \<and> ((steps w' = steps w @ [WriteFile d, Probe v] \<and> r \<noteq> Inr ())
                       \<or> (\<exists>p. steps w' = steps w @ [WriteFile d, Probe v, RunFFmpeg p]
                             \<and> r \<noteq> Inr ())
                       \<or> (\<exists>p s. script_path cfg = Inr s
                             \<and> steps w' = steps w @ [WriteFile d, Probe v, RunFFmpeg p,
                                                     WriteFile s])))))"
proof -
  from build_theme_front [OF assms] show ?thesis
  proof
    assume "steps w' = steps w \<and> r \<noteq> Inr ()"
    then show ?thesis by simp
  next
    assume "\<exists>wa bp wb rc wc. check_input_assets cfg w = (Inr (), wa)
           \<and> getitem cfg ''build'' = Inr bp
           \<and> prepare_build_directory bp wa = (Inr (), wb)
           \<and> write_plymouth_file cfg wb = (rc, wc)
           \<and> (case rc of
                 Inl e \<Rightarrow> r = Inl e \<and> w' = wc
               | Inr u \<Rightarrow> io_bind (extraction rt cfg) (write_plymouth_script cfg) wc = (r, w'))"
    then obtain wa bp wb rc wc where a: "check_input_assets cfg w = (Inr (), wa)"
      and bp: "getitem cfg ''build'' = Inr bp"
      and b: "prepare_build_directory bp wa = (Inr (), wb)"
      and c: "write_plymouth_file cfg wb = (rc, wc)"
      and k: "case rc of
                 Inl e \<Rightarrow> r = Inl e \<and> w' = wc
               | Inr u \<Rightarrow> io_bind (extraction rt cfg) (write_plymouth_script cfg) wc = (r, w')"
      by blast
    have sb: "steps wb = steps w"
      using check_input_assets_stepsD [OF a] prepare_build_directory_stepsD [OF b] by simp
    from write_plymouth_file_trace [OF c] show ?thesis
    proof
      assume n: "steps wc = steps wb \<and> rc \<noteq> Inr ()"
      then obtain e where "rc = Inl e"
        by (cases rc) auto
      with k n sb show ?thesis
        by simp
    next
      assume "\<exists>d post. descriptor_path cfg = Inr d \<and> steps wc = steps wb @ [WriteFile d]
         \<and> events wc = events wb @ WriteFile d # post
         \<and> (rc = Inr () \<longrightarrow>
              (\<exists>nm td dt. getitem cfg ''name'' = Inr nm \<and> getitem cfg ''theme_directory'' = Inr td
                 \<and> plymouth_text cfg nm td = Inr dt \<and> fs wc d = Some (File dt)))"
      then obtain d post where d: "descriptor_path cfg = Inr d"
        and sc: "steps wc = steps w @ [WriteFile d]"
        and ec: "events wc = events wb @ WriteFile d # post"
        and fc: "rc = Inr () \<longrightarrow>
              (\<exists>nm td dt. getitem cfg ''name'' = Inr nm \<and> getitem cfg ''theme_directory'' = Inr td
                 \<and> plymouth_text cfg nm td = Inr dt \<and> fs wc d = Some (File dt))"
        using sb by auto
      show ?thesis
      proof (cases rc)
        case (Inl e)
        with k have "r = Inl e" "w' = wc"
          by simp_all
        with a bp b d sc ec show ?thesis
          by auto
      next
        case (Inr u)
        with k have run: "io_bind (extraction rt cfg) (write_plymouth_script cfg) wc = (r, w')"
          by simp
        from Inr fc obtain nm td dt where t: "getitem cfg ''name'' = Inr nm"
          "getitem cfg ''theme_directory'' = Inr td" "plymouth_text cfg nm td = Inr dt"
          "fs wc d = Some (File dt)"
          by auto
        from after_descriptor [OF run d] obtain post2 where
          f: "fs w' d = fs wc d" and e2: "events w' = events wc @ post2"
          and st: "(steps w' = steps wc \<and> r \<noteq> Inr ())
            \<or> (\<exists>v. configured_video cfg = Inr v
              \<and> ((steps w' = steps wc @ [Probe v] \<and> r \<noteq> Inr ())
                 \<or> (\<exists>p. steps w' = steps wc @ [Probe v, RunFFmpeg p] \<and> r \<noteq> Inr ())
                 \<or> (\<exists>p s. script_path cfg = Inr s
                       \<and> steps w' = steps wc @ [Probe v, RunFFmpeg p, WriteFile s])))"
          by blast
        have ev: "events w' = events wb @ WriteFile d # (post @ post2)"
          using ec e2 by simp
        have fd: "fs w' d = Some (File dt)"
          using f t(4) by simp
        from st show ?thesis
        proof
          assume "steps w' = steps wc \<and> r \<noteq> Inr ()"
          with a bp b d ev sc show ?thesis
            apply -
            apply (rule disjI2)
            apply (rule exI [of _ wa], rule exI [of _ bp], rule exI [of _ wb], rule exI [of _ d],
                   rule exI [of _ "post @ post2"])
            apply simp
            done
        next
          assume "\<exists>v. configured_video cfg = Inr v
              \<and> ((steps w' = steps wc @ [Probe v] \<and> r \<noteq> Inr ())
                 \<or> (\<exists>p. steps w' = steps wc @ [Probe v, RunFFmpeg p] \<and> r \<noteq> Inr ())
                 \<or> (\<exists>p s. script_path cfg = Inr s
                       \<and> steps w' = steps wc @ [Probe v, RunFFmpeg p, WriteFile s]))"
          then obtain v where v: "configured_video cfg = Inr v"
            and s3: "(steps w' = steps w @ [WriteFile d, Probe v] \<and> r \<noteq> Inr ())
                 \<or> (\<exists>p. steps w' = steps w @ [WriteFile d, Probe v, RunFFmpeg p] \<and> r \<noteq> Inr ())
                 \<or> (\<exists>p s. script_path cfg = Inr s
                       \<and> steps w' = steps w @ [WriteFile d, Probe v, RunFFmpeg p, WriteFile s])"
            using sc by auto
          have "\<exists>v nm td dt. configured_video cfg = Inr v
                    \<and> getitem cfg ''name'' = Inr nm \<and> getitem cfg ''theme_directory'' = Inr td
                    \<and> plymouth_text cfg nm td = Inr dt \<and> fs w' d = Some (File dt)
                    \<and> ((steps w' = steps w @ [WriteFile d, Probe v] \<and> r \<noteq> Inr ())
                       \<or> (\<exists>p. steps w' = steps w @ [WriteFile d, Probe v, RunFFmpeg p]
                             \<and> r \<noteq> Inr ())
                       \<or> (\<exists>p s. script_path cfg = Inr s
                             \<and> steps w' = steps w @ [WriteFile d, Probe v, RunFFmpeg p,
                                                     WriteFile s]))"
            using v t(1-3) fd s3 by blast
          with a bp b d ev show ?thesis
            apply -
            apply (rule disjI2)
            apply (rule exI [of _ wa], rule exI [of _ bp], rule exI [of _ wb], rule exI [of _ d],
                   rule exI [of _ "post @ post2"])
            apply (intro conjI disjI2; assumption)
            done
        qed
      qed
    qed
  qed
qed

text \<open>
  C3, as the code has it. In every run, the steps that write a file or call the video tool
  form a prefix of: the descriptor is written, the video is probed, the encoder runs, the
  script is written; a run that succeeds makes all four. When the descriptor is written, the
  validation of the assets and the preparation of the build directory have both succeeded,
  and the events of the run are those of the preparation, then the write of the descriptor,
  then the rest. Once the probe has run, the descriptor holds the text of \<open>plymouth_text\<close>
  at the end of the run, whatever becomes of the extraction and of the script. So the script
  is written only after the frame extraction has completed, and the descriptor is written
  before it starts and is left in place when the extraction fails.
\<close>

theorem script_after_extraction:
  assumes "build_theme rt cfg w = (r, w')"
  shows "\<exists>k d v p s.
     steps w' = steps w @ take k [WriteFile d, Probe v, RunFFmpeg p, WriteFile s]
   \<and> (1 \<le> k \<longrightarrow> descriptor_path cfg = Inr d
        \<and> (\<exists>wa bp wb post. check_input_assets cfg w = (Inr (), wa)
              \<and> getitem cfg ''build'' = Inr bp
              \<and> prepare_build_directory bp wa = (Inr (), wb)
              \<and> events w' = events wb @ WriteFile d # post))
   \<and> (2 \<le> k \<longrightarrow> configured_video cfg = Inr v
        \<and> (\<exists>nm td dt. getitem cfg ''name'' = Inr nm \<and> getitem cfg ''theme_directory'' = Inr td
              \<and> plymouth_text cfg nm td = Inr dt \<and> fs w' d = Some (File dt)))
   \<and> (k = 4 \<longrightarrow> script_path cfg = Inr s)
   \<and> (r = Inr () \<longrightarrow> k = 4)"
proof -
  from build_theme_trace [OF assms] show ?thesis
  proof
    assume "steps w' = steps w \<and> r \<noteq> Inr ()"
    then show ?thesis
      apply -
      apply (rule exI [of _ "0::nat"])
      apply simp
      done
  next
    assume "\<exists>wa bp wb d post. check_input_assets cfg w = (Inr (), wa)
           \<and> getitem cfg ''build'' = Inr bp
           \<and> prepare_build_directory bp wa = (Inr (), wb)
           \<and> descriptor_path cfg = Inr d
           \<and> events w' = events wb @ WriteFile d # post
           \<and> ((steps w' = steps w @ [WriteFile d] \<and> r \<noteq> Inr ())
              \<or> (\<exists>v nm td dt. configured_video cfg = Inr v
                    \<and> getitem cfg ''name'' = Inr nm \<and> getitem cfg ''theme_directory'' = Inr td
                    \<and> plymouth_text cfg nm td = Inr dt \<and> fs w' d = Some (File dt)
                    \<and> ((steps w' = steps w @ [WriteFile d, Probe v] \<and> r \<noteq> Inr ())
                       \<or> (\<exists>p. steps w' = steps w @ [WriteFile d, Probe v, RunFFmpeg p]
                             \<and> r \<noteq> Inr ())
                       \<or> (\<exists>p s. script_path cfg = Inr s
                             \<and> steps w' = steps w @ [WriteFile d, Probe v, RunFFmpeg p,
                                                     WriteFile s]))))"
    then obtain wa bp wb d post where d: "descriptor_path cfg = Inr d"
      and pre: "check_input_assets cfg w = (Inr (), wa)" "getitem cfg ''build'' = Inr bp"
        "prepare_build_directory bp wa = (Inr (), wb)" "events w' = events wb @ WriteFile d # post"
      and rest: "(steps w' = steps w @ [WriteFile d] \<and> r \<noteq> Inr ())
              \<or> (\<exists>v nm td dt. configured_video cfg = Inr v
                    \<and> getitem cfg ''name'' = Inr nm \<and> getitem cfg ''theme_directory'' = Inr td
                    \<and> plymouth_text cfg nm td = Inr dt \<and> fs w' d = Some (File dt)
                    \<and> ((steps w' = steps w @ [WriteFile d, Probe v] \<and> r \<noteq> Inr ())
                       \<or> (\<exists>p. steps w' = steps w @ [WriteFile d, Probe v, RunFFmpeg p]
                             \<and> r \<noteq> Inr ())
                       \<or> (\<exists>p s. script_path cfg = Inr s
                             \<and> steps w' = steps w @ [WriteFile d, Probe v, RunFFmpeg p,
                                                     WriteFile s])))"
      by (elim exE conjE) (rule that; assumption)
    from pre have A: "\<exists>wa bp wb post. check_input_assets cfg w = (Inr (), wa)
              \<and> getitem cfg ''build'' = Inr bp
              \<and> prepare_build_directory bp wa = (Inr (), wb)
              \<and> events w' = events wb @ WriteFile d # post"
      by blast
    from rest show ?thesis
    proof
      assume "steps w' = steps w @ [WriteFile d] \<and> r \<noteq> Inr ()"
      with d A show ?thesis
        apply -
        apply (rule exI [of _ "1::nat"], rule exI [of _ d])
        apply simp
        done
    next
      assume "\<exists>v nm td dt. configured_video cfg = Inr v
                    \<and> getitem cfg ''name'' = Inr nm \<and> getitem cfg ''theme_directory'' = Inr td
                    \<and> plymouth_text cfg nm td = Inr dt \<and> fs w' d = Some (File dt)
                    \<and> ((steps w' = steps w @ [WriteFile d, Probe v] \<and> r \<noteq> Inr ())
                       \<or> (\<exists>p. steps w' = steps w @ [WriteFile d, Probe v, RunFFmpeg p]
                             \<and> r \<noteq> Inr ())
                       \<or> (\<exists>p s. script_path cfg = Inr s
                             \<and> steps w' = steps w @ [WriteFile d, Probe v, RunFFmpeg p,
                                                     WriteFile s]))"
      then obtain v nm td dt where v: "configured_video cfg = Inr v"
        and t: "getitem cfg ''name'' = Inr nm" "getitem cfg ''theme_directory'' = Inr td"
          "plymouth_text cfg nm td = Inr dt" "fs w' d = Some (File dt)"
        and st: "(steps w' = steps w @ [WriteFile d, Probe v] \<and> r \<noteq> Inr ())
                       \<or> (\<exists>p. steps w' = steps w @ [WriteFile d, Probe v, RunFFmpeg p]
                             \<and> r \<noteq> Inr ())
                       \<or> (\<exists>p s. script_path cfg = Inr s
                             \<and> steps w' = steps w @ [WriteFile d, Probe v, RunFFmpeg p,
                                                     WriteFile s])"
        by (elim exE conjE) (rule that; assumption)
      from t have B: "\<exists>nm td dt. getitem cfg ''name'' = Inr nm
              \<and> getitem cfg ''theme_directory'' = Inr td
              \<and> plymouth_text cfg nm td = Inr dt \<and> fs w' d = Some (File dt)"
        by blast
      from st consider
          (probe) "steps w' = steps w @ [WriteFile d, Probe v]" "r \<noteq> Inr ()"
        | (frames) p where "steps w' = steps w @ [WriteFile d, Probe v, RunFFmpeg p]" "r \<noteq> Inr ()"
        | (script) p s where "script_path cfg = Inr s"
            "steps w' = steps w @ [WriteFile d, Probe v, RunFFmpeg p, WriteFile s]"
        by blast
      then show ?thesis
      proof cases
        case probe
        with d A v B show ?thesis
          apply -
          apply (rule exI [of _ "2::nat"], rule exI [of _ d], rule exI [of _ v])
          apply (simp add: numeral_2_eq_2)
          done
      next
        case frames
        with d A v B show ?thesis
          apply -
          apply (rule exI [of _ "3::nat"], rule exI [of _ d], rule exI [of _ v], rule exI [of _ p])
          apply (simp add: numeral_3_eq_3)
          done
      next
        case script
        with d A v B show ?thesis
          apply -
          apply (rule exI [of _ "4::nat"], rule exI [of _ d], rule exI [of _ v], rule exI [of _ p],
                 rule exI [of _ s])
          apply simp
          done
      qed
    qed
  qed
qed

lemma sample_run:
  \<open>case build_theme sample_runtime (dict_update default_configuration [(''fps'', JInt 1)])
          (sample_world ''two seconds'') of
     (r, w') \<Rightarrow> r = Inr ()
       \<and> steps w' = [WriteFile ''./build/custom.plymouth'', Probe ''./source/animation.mp4'',
                      RunFFmpeg ''./build/animation_frame_%d.png'',
                      WriteFile ''./build/custom.script'']
       \<and> fs w' ''./build/animation_frame_0.png'' = None
       \<and> fs w' ''./build/animation_frame_1.png'' = Some (File ''png'')
       \<and> fs w' ''./build/animation_frame_2.png'' = Some (File ''png'')
       \<and> fs w' ''./build/animation_frame_3.png'' = None
       \<and> fs w' ''./build/custom.script''
           = Some (File ''for (i = 0; i < 2; i++)\<newline>   animation_image[i] = Image("animation_frame_" + i + ".png");\<newline>animation_sprite = Sprite();\<newline>\<newline>animation_sprite.SetX(Window.GetWidth() / 2 - animation_image[0].GetWidth() / 2);\<newline>animation_sprite.SetY(Window.GetHeight() / 2 - animation_image[0].GetHeight() / 2);\<newline>'')\<close>
  by code_simp

lemma sample_world_steps: "steps (sample_world v) = []"
  by (simp add: steps_def sample_world_def)

text \<open>
  C3 as the specification words it, with both files written after the extraction, fails on
  a run of the built-in configuration: the descriptor is written first, before the probe.
\<close>

theorem script_after_extraction_counterexample:
  "fst (build_theme sample_runtime (dict_update default_configuration [(''fps'', JInt 1)])
          (sample_world ''two seconds'')) = Inr ()
   \<and> steps (snd (build_theme sample_runtime (dict_update default_configuration [(''fps'', JInt 1)])
                   (sample_world ''two seconds'')))
       = [WriteFile ''./build/custom.plymouth'', Probe ''./source/animation.mp4'',
          RunFFmpeg ''./build/animation_frame_%d.png'', WriteFile ''./build/custom.script'']"
  using sample_run by (simp add: case_prod_beta)

theorem script_after_extraction_witness:
  "\<exists>d v p s.
      steps (snd (build_theme sample_runtime (dict_update default_configuration [(''fps'', JInt 1)])
                   (sample_world ''two seconds'')))
        = steps (sample_world ''two seconds'') @ [WriteFile d, Probe v, RunFFmpeg p, WriteFile s]
    \<and> descriptor_path (dict_update default_configuration [(''fps'', JInt 1)]) = Inr d
    \<and> (\<exists>wa bp wb post.
          check_input_assets (dict_update default_configuration [(''fps'', JInt 1)])
            (sample_world ''two seconds'') = (Inr (), wa)
        \<and> getitem (dict_update default_configuration [(''fps'', JInt 1)]) ''build'' = Inr bp
        \<and> prepare_build_directory bp wa = (Inr (), wb)
        \<and> events (snd (build_theme sample_runtime
                           (dict_update default_configuration [(''fps'', JInt 1)])
                           (sample_world ''two seconds'')))
            = events wb @ WriteFile d # post)
    \<and> configured_video (dict_update default_configuration [(''fps'', JInt 1)]) = Inr v
    \<and> (\<exists>nm td dt.
          getitem (dict_update default_configuration [(''fps'', JInt 1)]) ''name'' = Inr nm
        \<and> getitem (dict_update default_configuration [(''fps'', JInt 1)]) ''theme_directory'' = Inr td
        \<and> plymouth_text (dict_update default_configuration [(''fps'', JInt 1)]) nm td = Inr dt
        \<and> fs (snd (build_theme sample_runtime
                       (dict_update default_configuration [(''fps'', JInt 1)])
                       (sample_world ''two seconds''))) d = Some (File dt))
    \<and> script_path (dict_update default_configuration [(''fps'', JInt 1)]) = Inr s"
proof -
  let ?cfg = "dict_update default_configuration [(''fps'', JInt 1)]"
  let ?run = "build_theme sample_runtime ?cfg (sample_world ''two seconds'')"
  have r: "fst ?run = Inr ()"
    using sample_run by (simp add: case_prod_beta)
  have "?run = (fst ?run, snd ?run)"
    by (rule prod.collapse [symmetric])
  from script_after_extraction [OF this] obtain k d v p s where
    k: "steps (snd ?run) = steps (sample_world ''two seconds'')
          @ take k [WriteFile d, Probe v, RunFFmpeg p, WriteFile s]"
      "1 \<le> k \<longrightarrow> descriptor_path ?cfg = Inr d
        \<and> (\<exists>wa bp wb post. check_input_assets ?cfg (sample_world ''two seconds'') = (Inr (), wa)
              \<and> getitem ?cfg ''build'' = Inr bp
              \<and> prepare_build_directory bp wa = (Inr (), wb)
              \<and> events (snd ?run) = events wb @ WriteFile d # post)"
      "2 \<le> k \<longrightarrow> configured_video ?cfg = Inr v
        \<and> (\<exists>nm td dt. getitem ?cfg ''name'' = Inr nm \<and> getitem ?cfg ''theme_directory'' = Inr td
              \<and> plymouth_text ?cfg nm td = Inr dt \<and> fs (snd ?run) d = Some (File dt))"
      "k = 4 \<longrightarrow> script_path ?cfg = Inr s"
      "fst ?run = Inr () \<longrightarrow> k = 4"
    by blast
  from r k(5) have k4: "k = 4"
    by simp
  with k(1-4) show ?thesis
    apply -
    apply (rule exI [of _ d], rule exI [of _ v], rule exI [of _ p], rule exI [of _ s])
    apply simp
    done
qed

text \<open>
  C5, on a concrete run: the built-in configuration with \<open>fps = 1\<close>, a video of two seconds,
  hence an estimate of 2 and two frames from the encoder. The run succeeds. The encoder wrote
  \<open>animation_frame_1.png\<close> and \<open>animation_frame_2.png\<close>, and no \<open>animation_frame_0.png\<close>; the
  script loads \<open>"animation_frame_" + i + ".png"\<close> for \<open>i\<close> from 0 below 2.
\<close>

theorem frame_numbering_mismatch:
  \<open>fst (build_theme sample_runtime (dict_update default_configuration [(''fps'', JInt 1)])
          (sample_world ''two seconds'')) = Inr ()
   \<and> map (fs (snd (build_theme sample_runtime
                      (dict_update default_configuration [(''fps'', JInt 1)])
                      (sample_world ''two seconds''))))
         [''./build/animation_frame_0.png'', ''./build/animation_frame_1.png'',
          ''./build/animation_frame_2.png'', ''./build/animation_frame_3.png'']
       = [None, Some (File ''png''), Some (File ''png''), None]
   \<and> fs (snd (build_theme sample_runtime
                      (dict_update default_configuration [(''fps'', JInt 1)])
                      (sample_world ''two seconds''))) ''./build/custom.script''
       = Some (File ''for (i = 0; i < 2; i++)\<newline>   animation_image[i] = Image("animation_frame_" + i + ".png");\<newline>animation_sprite = Sprite();\<newline>\<newline>animation_sprite.SetX(Window.GetWidth() / 2 - animation_image[0].GetWidth() / 2);\<newline>animation_sprite.SetY(Window.GetHeight() / 2 - animation_image[0].GetHeight() / 2);\<newline>'')\<close>
  using sample_run by (simp add: case_prod_beta)

subsection \<open>The descriptor\<close>

lemma parent_join:
  assumes "CHR ''/'' \<notin> set x"
  shows "parent (b @ ''/'' @ x) = b"
proof -
  have "\<And>c. c \<in> set (rev x) \<Longrightarrow> c \<noteq> CHR ''/''"
    using assms by auto
  then have "dropWhile (\<lambda>c. c \<noteq> CHR ''/'') (rev x @ CHR ''/'' # rev b)
               = dropWhile (\<lambda>c. c \<noteq> CHR ''/'') (CHR ''/'' # rev b)"
    by (rule dropWhile_append2)
  then show ?thesis
    by (simp add: parent_def)
qed

lemma fstring_strs:
  "fstring [Inr (Inr (JStr a)), Inl s1, Inr (Inr (JStr b)), Inl s2] = Inr (a @ s1 @ b @ s2)"
  by simp

















lemma built_world_build:
  "fs (built_world v) ''./build'' = Some Dir"
  "fs (built_world v) ''./build/custom.plymouth'' \<noteq> Some Dir"
  "fs (built_world v) ''./build/foo.plymouth'' \<noteq> Some Dir"
  \<open>fs (built_world v) ''theme.json'' = Some (File ''{"name": "foo"}'')\<close>
  by (simp_all add: built_world_def sample_files_def)



subsection \<open>The frame extractor\<close>

lemma number_of_extracts_floor:
  "0 < t \<Longrightarrow> number_of_extracts (Finite t) (JInt fps) = Inr (JInt (\<lfloor>t\<rfloor> * fps))"
  by (simp add: number_of_extracts_def truncate_def)

lemma digit_no_slash: "m < 10 \<Longrightarrow> char_of (48 + m) \<noteq> CHR ''/''" for m :: nat
proof
  assume m: "m < 10" and "char_of (48 + m) = CHR ''/''"
  then have "(of_char (char_of (48 + m)) :: nat) = of_char CHR ''/''"
    by simp
  then have "(48 + m) mod 256 = 47"
    by simp
  with m show False
    by simp
qed

lemma digits_no_slash: "CHR ''/'' \<notin> set (digits n)"
proof (induction n rule: digits.induct)
  case (1 n)
  show ?case
  proof (cases "n < 10")
    case True
    then show ?thesis
      using digit_no_slash [of n] by (simp add: digits.simps [of n])
  next
    case False
    have "n mod 10 < 10" by simp
    from digit_no_slash [OF this] 1 False show ?thesis
      by (simp add: digits.simps [of n])
  qed
qed

lemma parent_frame_name: "parent (frame_name out i) = out"
proof -
  have "CHR ''/'' \<notin> set (''animation_frame_'' @ str_int i @ ''.png'')"
    using digits_no_slash by (simp add: str_int_def)
  from parent_join [OF this, of out] show ?thesis
    by (simp add: frame_name_def)
qed

lemma frame_name_not_out: "frame_name out i \<noteq> out"
  by (simp add: frame_name_def)

lemma pow2_ge_53: "53 \<le> e \<Longrightarrow> 2 ^ 53 \<le> pow2 e"
proof -
  assume e: "53 \<le> e"
  then have "53 \<le> nat e"
    by simp
  then have "(2::rat) ^ 53 \<le> 2 ^ nat e"
    by (intro power_increasing) simp_all
  with e show ?thesis
    by (simp add: pow2_def)
qed

lemma pow2_nonpos: "e \<le> 0 \<Longrightarrow> pow2 e = 1 / 2 ^ nat (- e)"
  by (cases "e = 0") (simp_all add: pow2_def)

lemma ilog2_le:
  assumes "0 < x" and "x < 2 ^ 53"
  shows "ilog2 x \<le> 52"
proof -
  obtain p d where pd: "quotient_of x = (p, d)"
    by (cases "quotient_of x")
  then have d: "0 < d"
    by (rule quotient_of_denom_pos)
  from pd have x: "x = of_int p / of_int d"
    by (rule quotient_of_div)
  from assms(1) x d have p: "0 < p"
    by (simp add: zero_less_divide_iff)
  let ?e = "bitlen p - bitlen d"
  have e53: "?e \<le> 53"
  proof (rule ccontr)
    assume "\<not> ?e \<le> 53"
    then have "nat (bitlen d) + 53 \<le> nat (bitlen p - 1)"
      using bitlen_nonneg [of d] by simp
    then have "(2::int) ^ (nat (bitlen d) + 53) \<le> 2 ^ nat (bitlen p - 1)"
      by (intro power_increasing) simp_all
    moreover from bitlen_bounds [OF p] have "2 ^ nat (bitlen p - 1) \<le> p" ..
    moreover from bitlen_bounds [OF d] have "d < 2 ^ nat (bitlen d)" ..
    then have "d * 2 ^ 53 < 2 ^ nat (bitlen d) * 2 ^ 53"
      by simp
    ultimately have "d * 2 ^ 53 < p"
      by (simp add: power_add)
    then have "(of_int (d * 2 ^ 53) :: rat) < of_int p"
      by (simp only: of_int_less_iff)
    then have "(2::rat) ^ 53 < of_int p / of_int d"
      using d by (simp add: pos_less_divide_eq mult.commute)
    with assms(2) x show False
      by simp
  qed
  show ?thesis
  proof (cases "pow2 ?e \<le> x")
    case True
    then have i: "ilog2 x = ?e"
      using pd by (simp add: ilog2_def)
    have "?e \<le> 52"
    proof (rule ccontr)
      assume "\<not> ?e \<le> 52"
      then have "53 \<le> ?e"
        by simp
      from pow2_ge_53 [OF this] True assms(2) show False
        by simp
    qed
    with i show ?thesis
      by simp
  next
    case False
    then have "ilog2 x = ?e - 1"
      using pd by (simp add: ilog2_def)
    with e53 show ?thesis
      by simp
  qed
qed

lemma round_half_even_of_int: "round_half_even (of_int n) = n"
  by (simp add: round_half_even_def)

lemma round_half_even_ge:
  assumes "of_int m \<le> y"
  shows "m \<le> round_half_even y"
proof -
  from assms have "m \<le> \<lfloor>y\<rfloor>"
    by (simp add: le_floor_iff)
  then show ?thesis
    by (simp add: round_half_even_def Let_def)
qed

lemma round_half_even_le:
  assumes "y \<le> of_int m"
  shows "round_half_even y \<le> m"
proof (cases "y = of_int m")
  case True
  then show ?thesis
    by (simp add: round_half_even_of_int)
next
  case False
  with assms have "y < of_int m"
    by simp
  then have "\<lfloor>y\<rfloor> < m"
    by (simp add: floor_less_iff)
  then show ?thesis
    by (simp add: round_half_even_def Let_def)
qed

lemma binary64_small:
  assumes "0 < x" and "x < 2 ^ 53"
  shows "\<exists>k. binary64 x =
           (if (2::rat) ^ 1024 \<le> of_int (round_half_even (x * 2 ^ k)) / 2 ^ k then PosInf
            else Finite (of_int (round_half_even (x * 2 ^ k)) / 2 ^ k))"
proof -
  let ?e = "max (ilog2 x) (- 1022)"
  have "?e - 52 \<le> 0"
    using ilog2_le [OF assms] by simp
  from pow2_nonpos [OF this] have q: "pow2 (?e - 52) = 1 / 2 ^ nat (52 - ?e)"
    by simp
  have p: "pow2 1024 = 2 ^ 1024"
    by (simp add: pow2_def)
  have "binary64 x =
           (if (2::rat) ^ 1024 \<le> of_int (round_half_even (x * 2 ^ nat (52 - ?e))) / 2 ^ nat (52 - ?e)
            then PosInf
            else Finite (of_int (round_half_even (x * 2 ^ nat (52 - ?e))) / 2 ^ nat (52 - ?e)))"
    using assms(1) by (simp add: binary64_def Let_def q p del: max_less_iff_conj)
  then show ?thesis ..
qed

lemma binary64_between:
  assumes "0 < x" and "x < 2 ^ 53" and "of_int m \<le> x" and "x \<le> of_int m + 1"
  shows "\<exists>q. binary64 x = Finite q \<and> of_int m \<le> q \<and> q \<le> of_int m + 1"
proof -
  from binary64_small [OF assms(1,2)] obtain k where
    k: "binary64 x =
           (if (2::rat) ^ 1024 \<le> of_int (round_half_even (x * 2 ^ k)) / 2 ^ k then PosInf
            else Finite (of_int (round_half_even (x * 2 ^ k)) / 2 ^ k))"
    by blast
  let ?R = "round_half_even (x * 2 ^ k)"
  have "of_int (m * 2 ^ k) \<le> x * 2 ^ k"
    using assms(3) by simp
  then have lo: "m * 2 ^ k \<le> ?R"
    by (rule round_half_even_ge)
  have "x * 2 ^ k \<le> of_int ((m + 1) * 2 ^ k)"
    using assms(4) by simp
  then have hi: "?R \<le> (m + 1) * 2 ^ k"
    by (rule round_half_even_le)
  from lo have "(of_int (m * 2 ^ k) :: rat) \<le> of_int ?R"
    by (simp only: of_int_le_iff)
  then have l: "(of_int m :: rat) \<le> of_int ?R / 2 ^ k"
    by (simp add: pos_le_divide_eq)
  from hi have "(of_int ?R :: rat) \<le> of_int ((m + 1) * 2 ^ k)"
    by (simp only: of_int_le_iff)
  then have h: "(of_int ?R :: rat) / 2 ^ k \<le> of_int m + 1"
    by (simp add: pos_divide_le_eq)
  have "(of_int m :: rat) < 2 ^ 53"
    using assms(2,3) by simp
  then have "m < 2 ^ 53"
    by (metis of_int_less_iff of_int_numeral of_int_power)
  then have "m + 1 \<le> 2 ^ 53"
    by simp
  then have "(of_int (m + 1) :: rat) \<le> of_int (2 ^ 53)"
    by (simp only: of_int_le_iff)
  then have "(of_int m :: rat) + 1 \<le> 2 ^ 53"
    by simp
  also have "(2::rat) ^ 53 < 2 ^ 1024"
    by simp
  finally have "(of_int ?R :: rat) / 2 ^ k < 2 ^ 1024"
    using h by simp
  with k l h show ?thesis
    by simp
qed

lemma binary64_of_int:
  assumes "0 \<le> n" and "n < 2 ^ 53"
  shows "binary64 (of_int n) = Finite (of_int n)"
proof (cases "n = 0")
  case True
  then show ?thesis
    by (simp add: binary64_def)
next
  case False
  with assms(1) have "(0::rat) < of_int n"
    by simp
  moreover have "(of_int n :: rat) < of_int (2 ^ 53)"
    using assms(2) by (simp only: of_int_less_iff)
  then have n53: "(of_int n :: rat) < 2 ^ 53"
    by simp
  ultimately obtain k where
    k: "binary64 (of_int n) =
           (if (2::rat) ^ 1024 \<le> of_int (round_half_even (of_int n * 2 ^ k)) / 2 ^ k then PosInf
            else Finite (of_int (round_half_even (of_int n * 2 ^ k)) / 2 ^ k))"
    using binary64_small [of "of_int n"] by blast
  have "(of_int n :: rat) * 2 ^ k = of_int (n * 2 ^ k)"
    by simp
  then have r: "round_half_even (of_int n * 2 ^ k) = n * 2 ^ k"
    by (simp only: round_half_even_of_int)
  have "(of_int n :: rat) < 2 ^ 1024"
    using n53 by (rule less_trans) simp
  with k r show ?thesis
    by simp
qed

lemma py_truediv_small:
  assumes "0 \<le> n" and "n < 2 ^ 53" and "0 < t"
  shows "py_truediv n (Finite t) = Inr (binary64 (of_int n / t))"
  using binary64_of_int [OF assms(1,2)] assms(3) by (simp add: py_truediv_def)

lemma source_fps_quotient:
  assumes "0 \<le> n" and "n < 2 ^ 53" and "0 < t" and "of_int n / t < 2 ^ 53"
  shows "\<exists>q. binary64 (of_int n / t) = Finite q
     \<and> source_fps n (Finite t) = Inr \<lfloor>q\<rfloor>
     \<and> \<lfloor>of_int n / t\<rfloor> \<le> \<lfloor>q\<rfloor> \<and> \<lfloor>q\<rfloor> \<le> \<lfloor>of_int n / t\<rfloor> + 1
     \<and> (\<lfloor>q\<rfloor> = \<lfloor>of_int n / t\<rfloor> + 1 \<longrightarrow> q = of_int \<lfloor>q\<rfloor>)
     \<and> (\<forall>k. of_int n / t = of_int k \<longrightarrow> \<lfloor>q\<rfloor> = k)"
proof (cases "n = 0")
  case True
  then have "binary64 (of_int n / t) = Finite 0"
    by (simp add: binary64_def)
  moreover have "source_fps n (Finite t) = Inr 0"
    using True assms(3) by (simp add: source_fps_def py_truediv_def binary64_def truncate_def)
  ultimately show ?thesis
    using True by simp
next
  case False
  let ?x = "of_int n / t"
  let ?m = "\<lfloor>?x\<rfloor>"
  from False assms(1,3) have x: "0 < ?x"
    by simp
  have "of_int ?m \<le> ?x" "?x \<le> of_int ?m + 1"
    by linarith+
  from binary64_between [OF x assms(4) this] obtain q where
    q: "binary64 ?x = Finite q" "of_int ?m \<le> q" "q \<le> of_int ?m + 1"
    by blast
  have m0: "0 \<le> ?m"
    using x by simp
  with q(2) have q0: "0 \<le> q"
    by linarith
  have s: "source_fps n (Finite t) = Inr \<lfloor>q\<rfloor>"
    using py_truediv_small [OF assms(1,2,3)] q(1) q0 by (simp add: source_fps_def truncate_def)
  have lo: "?m \<le> \<lfloor>q\<rfloor>"
    using q(2) by (simp add: le_floor_iff)
  have hi: "\<lfloor>q\<rfloor> \<le> ?m + 1"
  proof -
    have "\<lfloor>q\<rfloor> \<le> \<lfloor>(of_int (?m + 1) :: rat)\<rfloor>"
      using q(3) by (intro floor_mono) simp
    then show ?thesis
      by simp
  qed
  have up: "\<lfloor>q\<rfloor> = ?m + 1 \<longrightarrow> q = of_int \<lfloor>q\<rfloor>"
  proof
    assume e: "\<lfloor>q\<rfloor> = ?m + 1"
    have "of_int \<lfloor>q\<rfloor> \<le> q"
      by simp
    with e q(3) show "q = of_int \<lfloor>q\<rfloor>"
      by simp
  qed
  have ex: "\<forall>k. ?x = of_int k \<longrightarrow> \<lfloor>q\<rfloor> = k"
  proof (intro allI impI)
    fix k
    assume k: "?x = of_int k"
    with x have "0 \<le> k"
      by simp
    moreover from k assms(4) have "(of_int k :: rat) < 2 ^ 53"
      by simp
    then have "k < 2 ^ 53"
      by (metis of_int_less_iff of_int_numeral of_int_power)
    ultimately have "binary64 (of_int k) = Finite (of_int k)"
      by (rule binary64_of_int)
    then have "binary64 ?x = Finite (of_int k)"
      by (simp only: k)
    with q(1) have "q = of_int k"
      by simp
    then show "\<lfloor>q\<rfloor> = k"
      by simp
  qed
  from q(1) s lo hi up ex show ?thesis
    by blast
qed

lemma sample_rounding:
  "binary64 (1 / 10) = Finite (3602879701896397 / 36028797018963968)"
  "source_fps 1 (Finite (3602879701896397 / 36028797018963968)) = Inr 10"
  "\<lfloor>(1::rat) / (3602879701896397 / 36028797018963968)\<rfloor> = 9"
  by code_simp+


lemma ancestorsD: "a \<in> set (ancestors p) \<Longrightarrow> \<exists>r. p = a @ CHR ''/'' # r"
proof -
  assume "a \<in> set (ancestors p)"
  then obtain i where i: "i < length p" "p ! i = CHR ''/''" "a = take i p"
    by (auto simp: ancestors_def)
  from i(1) have "p = take i p @ p ! i # drop (Suc i) p"
    by (rule id_take_nth_drop)
  with i(2,3) show ?thesis
    by auto
qed

lemma str_int_no_slash: "CHR ''/'' \<notin> set (str_int i)"
  using digits_no_slash by (simp add: str_int_def)

lemma frame_not_ancestor: "frame_name out i \<notin> set (ancestors (frame_name out j))"
proof
  assume "frame_name out i \<in> set (ancestors (frame_name out j))"
  from ancestorsD [OF this] obtain r where
    "frame_name out j = frame_name out i @ CHR ''/'' # r"
    by blast
  then have "str_int j @ ''.png'' = str_int i @ ''.png'' @ CHR ''/'' # r"
    by (simp add: frame_name_def)
  then have "set (str_int j @ ''.png'') = set (str_int i @ ''.png'' @ CHR ''/'' # r)"
    by (rule arg_cong)
  then have "CHR ''/'' \<in> set (str_int j @ ''.png'')"
    by simp
  then show False
    using str_int_no_slash [of j] by simp
qed

lemma walk_update: "q \<notin> set as \<Longrightarrow> walk (f(q \<mapsto> File x)) as = walk f as"
  by (induction as) (auto simp: os_path_isfile_def)

lemma open_error_update:
  "q \<notin> set (ancestors p) \<Longrightarrow> open_error (f(q \<mapsto> File x)) p = open_error f p"
  by (simp add: open_error_def walk_update)

lemma write_frames_ok:
  assumes "out = [] \<or> fs w out = Some Dir"
    and "\<forall>j. i \<le> j \<and> j < i + int (length xs)
           \<longrightarrow> open_error (fs w) (frame_name out j) = None
             \<and> fs w (frame_name out j) \<noteq> Some Dir"
  shows "fst (write_frames out i xs w) = Inr ()"
  using assms
proof (induction xs arbitrary: i w)
  case Nil
  show ?case by simp
next
  case (Cons x xs)
  let ?f = "(fs w)(frame_name out i \<mapsto> File x)"
  have "open_error (fs w) (frame_name out i) = None" "fs w (frame_name out i) \<noteq> Some Dir"
    using Cons.prems(2) by simp_all
  then have s: "store (fs w) (frame_name out i) x = Inr ?f"
    using Cons.prems(1) by (intro store_ok) (auto simp: parent_frame_name)
  have "out = [] \<or> fs (w\<lparr>fs := ?f\<rparr>) out = Some Dir"
    using Cons.prems(1) frame_name_not_out [of out i] by auto
  moreover have "\<forall>j. i + 1 \<le> j \<and> j < i + 1 + int (length xs)
           \<longrightarrow> open_error (fs (w\<lparr>fs := ?f\<rparr>)) (frame_name out j) = None
             \<and> fs (w\<lparr>fs := ?f\<rparr>) (frame_name out j) \<noteq> Some Dir"
    using Cons.prems(2) by (simp add: open_error_update [OF frame_not_ancestor])
  ultimately have "fst (write_frames out (i + 1) xs (w\<lparr>fs := ?f\<rparr>)) = Inr ()"
    by (rule Cons.IH)
  with s show ?case by simp
qed

lemma extract_frames_run:
  assumes "fs w video_path = Some (File c)" and "ffprobe rt c = Inr probe"
    and "source_fps (nb_frames probe) (duration probe) = Inr sfps"
    and "number_of_extracts (duration probe) fps = Inr (JInt n)"
    and "CHR ''%'' \<notin> set out" and "out = [] \<or> fs w out = Some Dir"
    and "ffmpeg_frames rt c (width probe) fps = Some frames"
    and "\<forall>j. image2_start_number \<le> j \<and> j < image2_start_number + int (length frames)
           \<longrightarrow> open_error (fs w) (frame_name out j) = None
             \<and> fs w (frame_name out j) \<noteq> Some Dir"
  shows "\<exists>w'. extract_frames_from_video rt video_path (JStr out) fps w = (Inr (JInt n), w')
     \<and> events w' = events w @
         [Print (''Generate animation frames from video '' @ quote video_path),
          Probe video_path,
          Print (''Input video duration = '' @ float_repr rt (duration probe)
                 @ '' seconds @ '' @ str_int sfps @ '' fps''),
          Print (''Input video size = '' @ str_int (width probe) @ ''x''
                 @ str_int (height probe)),
          Print (''The result should be '' @ str_int n @ '' images''),
          RunFFmpeg (out @ ''/animation_frame_%d.png'')]"
proof -
  let ?ev = "[Print (''Generate animation frames from video '' @ quote video_path),
          Probe video_path,
          Print (''Input video duration = '' @ float_repr rt (duration probe)
                 @ '' seconds @ '' @ str_int sfps @ '' fps''),
          Print (''Input video size = '' @ str_int (width probe) @ ''x''
                 @ str_int (height probe)),
          Print (''The result should be '' @ str_int n @ '' images''),
          RunFFmpeg (out @ ''/animation_frame_%d.png'')]"
  let ?w = "w\<lparr>events := events w @ ?ev\<rparr>"
  have "out = [] \<or> fs ?w out = Some Dir"
    "\<forall>j. image2_start_number \<le> j \<and> j < image2_start_number + int (length frames)
           \<longrightarrow> open_error (fs ?w) (frame_name out j) = None
             \<and> fs ?w (frame_name out j) \<noteq> Some Dir"
    using assms(6,8) by simp_all
  then have ok: "fst (write_frames out image2_start_number frames ?w) = Inr ()"
    by (rule write_frames_ok)
  have ev: "events (snd (write_frames out image2_start_number frames ?w)) = events ?w"
    by (rule write_frames_events)
  obtain r5 w5 where wf: "write_frames out image2_start_number frames ?w = (r5, w5)"
    by fastforce
  with ok ev have r5: "r5 = Inr ()" and w5: "events w5 = events w @ ?ev"
    by simp_all
  have "extract_frames_from_video rt video_path (JStr out) fps w = (Inr (JInt n), w5)"
    using assms(1-5,7) wf r5
    by (simp add: extract_frames_from_video_def io_defs ffmpeg_probe_def ffmpeg_run_def
          output_pattern_def Let_def)
  with w5 show ?thesis by blast
qed

text \<open>
  C1, as the code has it. For a video whose probe gives a positive duration \<open>t\<close> and a frame
  count \<open>n\<close> with \<open>0 \<le> n < 2 ^ 53\<close> and \<open>n / t < 2 ^ 53\<close>, the source frame rate is the floor
  of the quotient \<open>q\<close> of \<open>n\<close> by \<open>t\<close> as Python computes it, rounded to binary64: it is
  \<open>floor(n / t)\<close> or \<open>floor(n / t) + 1\<close>, the latter only when the quotient rounds up to
  that integer, and it is \<open>n / t\<close> when that is an integer. With an integer target rate, an
  output directory in place, frame names that can be opened for writing and an encoder that
  succeeds, the extractor returns \<open>floor(t) * fps\<close>, and prints both numbers. For ten seconds
  and 25 frames per second, the count is 250.
\<close>

theorem extract_frames_estimate:
  assumes "fs w video_path = Some (File c)" and "ffprobe rt c = Inr probe"
    and "duration probe = Finite t" and "0 < t"
    and "0 \<le> nb_frames probe" and "nb_frames probe < 2 ^ 53"
    and "of_int (nb_frames probe) / t < 2 ^ 53"
    and "CHR ''%'' \<notin> set out" and "out = [] \<or> fs w out = Some Dir"
    and "ffmpeg_frames rt c (width probe) (JInt fps) = Some frames"
    and "\<forall>j. image2_start_number \<le> j \<and> j < image2_start_number + int (length frames)
           \<longrightarrow> open_error (fs w) (frame_name out j) = None
             \<and> fs w (frame_name out j) \<noteq> Some Dir"
  shows "\<exists>q. binary64 (of_int (nb_frames probe) / t) = Finite q
     \<and> source_fps (nb_frames probe) (Finite t) = Inr \<lfloor>q\<rfloor>
     \<and> \<lfloor>of_int (nb_frames probe) / t\<rfloor> \<le> \<lfloor>q\<rfloor>
     \<and> \<lfloor>q\<rfloor> \<le> \<lfloor>of_int (nb_frames probe) / t\<rfloor> + 1
     \<and> (\<lfloor>q\<rfloor> = \<lfloor>of_int (nb_frames probe) / t\<rfloor> + 1 \<longrightarrow> q = of_int \<lfloor>q\<rfloor>)
     \<and> (\<forall>k. of_int (nb_frames probe) / t = of_int k \<longrightarrow> \<lfloor>q\<rfloor> = k)
     \<and> (\<exists>w'. extract_frames_from_video rt video_path (JStr out) (JInt fps) w
                = (Inr (JInt (\<lfloor>t\<rfloor> * fps)), w')
          \<and> Print (''Input video duration = '' @ float_repr rt (Finite t)
                    @ '' seconds @ '' @ str_int \<lfloor>q\<rfloor> @ '' fps'') \<in> set (events w')
          \<and> Print (''The result should be '' @ str_int (\<lfloor>t\<rfloor> * fps) @ '' images'')
               \<in> set (events w'))"
proof -
  from source_fps_quotient [OF assms(5,6,4,7)] obtain q where
    q: "binary64 (of_int (nb_frames probe) / t) = Finite q"
      "source_fps (nb_frames probe) (Finite t) = Inr \<lfloor>q\<rfloor>"
      "\<lfloor>of_int (nb_frames probe) / t\<rfloor> \<le> \<lfloor>q\<rfloor>"
      "\<lfloor>q\<rfloor> \<le> \<lfloor>of_int (nb_frames probe) / t\<rfloor> + 1"
      "\<lfloor>q\<rfloor> = \<lfloor>of_int (nb_frames probe) / t\<rfloor> + 1 \<longrightarrow> q = of_int \<lfloor>q\<rfloor>"
      "\<forall>k. of_int (nb_frames probe) / t = of_int k \<longrightarrow> \<lfloor>q\<rfloor> = k"
    by blast
  have s: "source_fps (nb_frames probe) (duration probe) = Inr \<lfloor>q\<rfloor>"
    using q(2) assms(3) by simp
  have n: "number_of_extracts (duration probe) (JInt fps) = Inr (JInt (\<lfloor>t\<rfloor> * fps))"
    using number_of_extracts_floor [OF assms(4)] assms(3) by simp
  from extract_frames_run [OF assms(1,2) s n assms(8,9,10,11)] assms(3)
  have "\<exists>w'. extract_frames_from_video rt video_path (JStr out) (JInt fps) w
                = (Inr (JInt (\<lfloor>t\<rfloor> * fps)), w')
          \<and> Print (''Input video duration = '' @ float_repr rt (Finite t)
                    @ '' seconds @ '' @ str_int \<lfloor>q\<rfloor> @ '' fps'') \<in> set (events w')
          \<and> Print (''The result should be '' @ str_int (\<lfloor>t\<rfloor> * fps) @ '' images'')
               \<in> set (events w')"
    by auto
  with q show ?thesis
    by blast
qed

lemma built_world_frames:
  "fs (built_world v) ''./source/animation.mp4'' = Some (File v)"
  "\<forall>i. fs (built_world v) (frame_name ''./build'' i) \<noteq> Some Dir"
  by (simp_all add: built_world_def sample_files_def frame_name_def)

lemma sample_texts: "str_int 30 = ''30''" "str_int 250 = ''250''"
  by code_simp+

lemma digit_no_nul: "m < 10 \<Longrightarrow> char_of (48 + m) \<noteq> CHR 0x00" for m :: nat
proof
  assume m: "m < 10" and "char_of (48 + m) = CHR 0x00"
  then have "(of_char (char_of (48 + m)) :: nat) = of_char CHR 0x00"
    by simp
  then have "(48 + m) mod 256 = 0"
    by simp
  with m show False
    by simp
qed

lemma digits_no_nul: "CHR 0x00 \<notin> set (digits n)"
proof (induction n rule: digits.induct)
  case (1 n)
  show ?case
  proof (cases "n < 10")
    case True
    then show ?thesis
      using digit_no_nul [of n] by (simp add: digits.simps [of n])
  next
    case False
    have "n mod 10 < 10" by simp
    from digit_no_nul [OF this] 1 False show ?thesis
      by (simp add: digits.simps [of n])
  qed
qed

lemma digits_length: "n < 10 ^ k \<Longrightarrow> 0 < k \<Longrightarrow> length (digits n) \<le> k"
proof (induction n arbitrary: k rule: digits.induct)
  case (1 n)
  show ?case
  proof (cases "n < 10")
    case True
    then show ?thesis
      using "1.prems"(2) by (simp add: digits.simps [of n])
  next
    case False
    from "1.prems"(2) obtain k' where k: "k = Suc k'"
      by (cases k) auto
    have k': "0 < k'"
      using False "1.prems"(1) k by (cases k') auto
    have "n < 10 ^ k' * 10"
      using "1.prems"(1) k by simp
    then have "n div 10 < 10 ^ k'"
      by (rule less_mult_imp_div_less)
    from "1.IH" [OF False this k'] have "length (digits (n div 10)) \<le> k'" .
    then show ?thesis
      using False k by (simp add: digits.simps [of n])
  qed
qed

lemma basename_length: "length (basename p) \<le> length p"
  using length_takeWhile_le [of "\<lambda>c. c \<noteq> CHR ''/''" "rev p"] by (simp add: basename_def)

lemma built_world_files:
  "os_path_isfile (fs (built_world v)) a \<Longrightarrow>
   a \<in> set [''theme.json'', ''./source/animation.mp4'', ''./source/box.png'',
              ''./source/entry.png'', ''./source/bullet.png'', ''./source/lock.png'',
              ''./source/progress_box.png'', ''./source/progress_bar.png'']"
  by (simp add: built_world_def sample_files_def os_path_isfile_def split: if_splits)

lemma built_world_frame_open:
  assumes "0 \<le> j" and "j < 1000"
  shows "open_error (fs (built_world v)) (frame_name ''./build'' j) = None"
proof (rule open_error_NoneI)
  let ?p = "frame_name ''./build'' j"
  have s: "str_int j = digits (nat j)"
    using assms(1) by (simp add: str_int_def)
  have "nat j < 10 ^ 3"
    using assms by simp
  then have "length (digits (nat j)) \<le> 3"
    by (rule digits_length) simp
  then have l: "length ?p \<le> 31"
    by (simp add: frame_name_def s)
  show "?p \<noteq> []"
    by (simp add: frame_name_def)
  show "CHR 0x00 \<notin> set ?p"
    using digits_no_nul [of "nat j"] by (simp add: frame_name_def s)
  show "length ?p < PATH_MAX"
    using l by (simp add: PATH_MAX_def)
  show "length (basename ?p) \<le> NAME_MAX"
    using l basename_length [of ?p] by (simp add: NAME_MAX_def)
  show "\<forall>a \<in> set (ancestors ?p).
          length (basename a) \<le> NAME_MAX \<and> \<not> os_path_isfile (fs (built_world v)) a"
  proof (intro ballI conjI)
    fix a
    assume a: "a \<in> set (ancestors ?p)"
    then have "length a < length ?p"
      by (auto simp: ancestors_def)
    with l basename_length [of a] show "length (basename a) \<le> NAME_MAX"
      by (simp add: NAME_MAX_def)
    from ancestorsD [OF a] obtain r where r: "?p = a @ CHR ''/'' # r"
      by blast
    show "\<not> os_path_isfile (fs (built_world v)) a"
    proof
      assume "os_path_isfile (fs (built_world v)) a"
      from built_world_files [OF this] r show False
        by (auto simp: frame_name_def)
    qed
  qed
qed

theorem extract_frames_estimate_witness:
  "source_fps 300 (Finite 10) = Inr 30
   \<and> (\<exists>w'. extract_frames_from_video sample_runtime ''./source/animation.mp4'' (JStr ''./build'')
               (JInt 25) (built_world ''ten seconds'') = (Inr (JInt 250), w')
         \<and> Print ''Input video duration = 10.0 seconds @ 30 fps'' \<in> set (events w')
         \<and> Print ''The result should be 250 images'' \<in> set (events w'))"
proof -
  let ?probe = "\<lparr>duration = Finite 10, width = 640, height = 480, nb_frames = 300\<rparr>"
  let ?w = "built_world ''ten seconds''"
  have p: "ffprobe sample_runtime ''ten seconds'' = Inr ?probe"
    by (simp add: sample_runtime_def)
  have d: "duration ?probe = Finite 10" "(0::rat) < 10" "0 \<le> nb_frames ?probe"
    "nb_frames ?probe < 2 ^ 53" "of_int (nb_frames ?probe) / (10::rat) < 2 ^ 53"
    by simp_all
  have o: "CHR ''%'' \<notin> set ''./build''"
    "''./build'' = [] \<or> fs ?w ''./build'' = Some Dir"
    by (simp_all add: built_world_build)
  have f: "ffmpeg_frames sample_runtime ''ten seconds'' (width ?probe) (JInt 25)
             = Some (replicate 250 ''png'')"
    by (simp add: sample_runtime_def)
  have n: "\<forall>j. image2_start_number \<le> j
              \<and> j < image2_start_number + int (length (replicate 250 ''png''))
           \<longrightarrow> open_error (fs ?w) (frame_name ''./build'' j) = None
             \<and> fs ?w (frame_name ''./build'' j) \<noteq> Some Dir"
    using built_world_frame_open [of _ "''ten seconds''"] built_world_frames(2)
    by (simp add: image2_start_number_def)
  from extract_frames_estimate [OF built_world_frames(1) p d o f n] obtain q where
    q: "source_fps (nb_frames ?probe) (Finite 10) = Inr \<lfloor>q :: rat\<rfloor>"
      "\<forall>k. of_int (nb_frames ?probe) / (10::rat) = of_int k \<longrightarrow> \<lfloor>q\<rfloor> = k"
      "\<exists>w'. extract_frames_from_video sample_runtime ''./source/animation.mp4'' (JStr ''./build'')
               (JInt 25) ?w = (Inr (JInt (\<lfloor>10::rat\<rfloor> * 25)), w')
          \<and> Print (''Input video duration = '' @ float_repr sample_runtime (Finite 10)
                    @ '' seconds @ '' @ str_int \<lfloor>q\<rfloor> @ '' fps'') \<in> set (events w')
          \<and> Print (''The result should be '' @ str_int (\<lfloor>10::rat\<rfloor> * 25) @ '' images'')
               \<in> set (events w')"
    by blast
  have "of_int (nb_frames ?probe) / (10::rat) = of_int 30"
    by simp
  with q(2) have "\<lfloor>q\<rfloor> = 30"
    by blast
  with q(1,3) show ?thesis
    by (simp add: sample_runtime_def sample_texts)
qed

text \<open>
  C1 as the specification words it, with the exact quotient, fails for one frame over a
  tenth of a second. The duration is the binary64 number nearest to 0.1, which is above it,
  so the exact quotient is below 10 and its floor is 9; the quotient of Python rounds to
  10.0 and the code derives 10.
\<close>

theorem extract_frames_estimate_counterexample:
  "binary64 (1 / 10) = Finite (3602879701896397 / 36028797018963968)
   \<and> 0 < (3602879701896397 / 36028797018963968 :: rat)
   \<and> source_fps 1 (Finite (3602879701896397 / 36028797018963968)) = Inr 10
   \<and> \<lfloor>(1::rat) / (3602879701896397 / 36028797018963968)\<rfloor> = 9"
  using sample_rounding by simp

subsection \<open>Running the pipeline again\<close>

lemma build_theme_success:
  assumes "build_theme rt cfg w = (Inr (), w')"
  shows "\<exists>d s nm td dt v c st fps n stx.
     descriptor_path cfg = Inr d \<and> script_path cfg = Inr s
   \<and> getitem cfg ''name'' = Inr nm \<and> getitem cfg ''theme_directory'' = Inr td
   \<and> plymouth_text cfg nm td = Inr dt
   \<and> configured_video cfg = Inr v \<and> ((fs w)(d \<mapsto> File dt)) v = Some (File c)
   \<and> ffprobe rt c = Inr st \<and> getitem cfg ''fps'' = Inr fps
   \<and> number_of_extracts (duration st) fps = Inr n \<and> script_text n = Inr stx
   \<and> fs w' d = Some (File dt) \<and> fs w' s = Some (File stx)"
proof -
  from assms obtain wa wb wc wd bp v outp fps n where
    a: "check_input_assets cfg w = (Inr (), wa)"
    and bp: "getitem cfg ''build'' = Inr bp"
    and b: "prepare_build_directory bp wa = (Inr (), wb)"
    and c: "write_plymouth_file cfg wb = (Inr (), wc)"
    and v: "configured_video cfg = Inr v"
    and o: "getitem cfg ''build'' = Inr outp"
    and f: "getitem cfg ''fps'' = Inr fps"
    and e: "extract_frames_from_video rt v outp fps wc = (Inr n, wd)"
    and g: "write_plymouth_script cfg n wd = (Inr (), w')"
    by (auto simp: build_theme_def io_bind_def io_then_def io_lift_def configured_video_def
             split: sum.splits prod.splits)
  from check_input_assets_fsD [OF a] have fa: "fs wa = fs w" .
  from write_plymouth_file_success [OF c] obtain d nm td dt where
    d: "descriptor_path cfg = Inr d" "getitem cfg ''name'' = Inr nm"
       "getitem cfg ''theme_directory'' = Inr td" "plymouth_text cfg nm td = Inr dt"
    and fc: "fs wc = (fs wb)(d \<mapsto> File dt)"
    by blast
  from extract_success [OF e] obtain c0 st where
    p: "fs wc v = Some (File c0)" "ffprobe rt c0 = Inr st"
       "number_of_extracts (duration st) fps = Inr n"
    and fd: "\<forall>out p. fmt outp = Inr out \<longrightarrow> (\<forall>i. p \<noteq> frame_name out i)
               \<longrightarrow> fs wd p = fs wc p"
    by blast
  from write_plymouth_script_success [OF g] obtain s stx where
    s: "script_path cfg = Inr s" "script_text n = Inr stx"
    and fg: "fs w' = (fs wd)(s \<mapsto> File stx)"
    by blast
  from paths_shape [OF d(1) s(1)] have ds: "d \<noteq> s"
    by auto
  obtain out where out: "fmt outp = Inr out"
    using d(1) o by (auto simp: descriptor_path_def split: sum.splits)
  have "fs wd d = fs wc d"
    using fd out descriptor_not_frame [OF d(1)] by blast
  then have wd: "fs w' d = Some (File dt)"
    using fg fc ds by simp
  have ws: "fs w' s = Some (File stx)"
    using fg by simp
  have "((fs w)(d \<mapsto> File dt)) v = Some (File c0)"
  proof (cases "v = d")
    case True
    with p(1) fc show ?thesis by simp
  next
    case False
    with p(1) fc have "fs wb v = Some (File c0)" by simp
    with prepare_build_directory_files [OF b, of v c0] fa False show ?thesis by simp
  qed
  with d s v p f wd ws show ?thesis by blast
qed


text \<open>
  C7. Two runs with the same configuration, the second on the world that the first left,
  both successful, and the probe reporting the same duration for the video found at the
  start of each: the descriptor and the script hold the same bytes after the second run as
  after the first. The descriptor is the text that \<open>plymouth_text\<close> computes from the
  configuration, the script is \<open>script_text\<close> of the frame count.
\<close>

theorem rerun_identical_files:
  assumes "build_theme rt cfg w = (Inr (), w1)"
    and "build_theme rt cfg w1 = (Inr (), w2)"
    and "probed_duration rt cfg (fs w) = probed_duration rt cfg (fs w1)"
  shows "\<exists>d s nm td dt n stx.
     descriptor_path cfg = Inr d \<and> script_path cfg = Inr s
   \<and> getitem cfg ''name'' = Inr nm \<and> getitem cfg ''theme_directory'' = Inr td
   \<and> plymouth_text cfg nm td = Inr dt \<and> script_text n = Inr stx
   \<and> fs w1 d = Some (File dt) \<and> fs w2 d = Some (File dt)
   \<and> fs w1 s = Some (File stx) \<and> fs w2 s = Some (File stx)"
proof -
  from build_theme_success [OF assms(1)] obtain d s nm td dt v c st fps n stx where
    r1: "descriptor_path cfg = Inr d" "script_path cfg = Inr s"
        "getitem cfg ''name'' = Inr nm" "getitem cfg ''theme_directory'' = Inr td"
        "plymouth_text cfg nm td = Inr dt" "configured_video cfg = Inr v"
        "((fs w)(d \<mapsto> File dt)) v = Some (File c)" "ffprobe rt c = Inr st"
        "getitem cfg ''fps'' = Inr fps" "number_of_extracts (duration st) fps = Inr n"
        "script_text n = Inr stx" "fs w1 d = Some (File dt)" "fs w1 s = Some (File stx)"
    by blast
  from build_theme_success [OF assms(2)] r1(1-6,9) obtain c' st' n' stx' where
    r2: "((fs w1)(d \<mapsto> File dt)) v = Some (File c')" "ffprobe rt c' = Inr st'"
        "number_of_extracts (duration st') fps = Inr n'"
        "script_text n' = Inr stx'" "fs w2 d = Some (File dt)" "fs w2 s = Some (File stx')"
    by auto
  have "duration st = duration st'"
  proof (cases "v = d")
    case True
    with r1(7,8) r2(1,2) show ?thesis by simp
  next
    case False
    with r1(7) r2(1) have "fs w v = Some (File c)" "fs w1 v = Some (File c')"
      by simp_all
    then have "probed_duration rt cfg (fs w) = Some (duration st)"
      "probed_duration rt cfg (fs w1) = Some (duration st')"
      using r1(6,8) r2(2) by (simp_all add: probed_duration_def)
    with assms(3) show ?thesis by simp
  qed
  with r1(10) r2(3) have "n' = n" by simp
  with r1(11) r2(4) have "stx' = stx" by simp
  with r1 r2 show ?thesis by blast
qed

lemma sample_rerun:
  \<open>case build_theme sample_runtime (dict_update default_configuration [(''fps'', JInt 1)])
          (sample_world ''two seconds'') of
     (r1, w1) \<Rightarrow>
       probed_duration sample_runtime (dict_update default_configuration [(''fps'', JInt 1)])
         (fs w1) = Some (Finite 2)
       \<and> fst (build_theme sample_runtime (dict_update default_configuration [(''fps'', JInt 1)])
                w1) = Inr ()\<close>
  by code_simp

lemma sample_probed:
  "probed_duration sample_runtime (dict_update default_configuration [(''fps'', JInt 1)])
     (fs (sample_world ''two seconds'')) = Some (Finite 2)"
  by code_simp

lemma sample_paths:
  "descriptor_path (dict_update default_configuration [(''fps'', JInt 1)])
     = Inr ''./build/custom.plymouth''"
  "script_path (dict_update default_configuration [(''fps'', JInt 1)])
     = Inr ''./build/custom.script''"
  by (simp_all add: descriptor_path_def script_path_def dict_update_def
        default_configuration_def getitem_def)

theorem rerun_identical_files_witness:
  "fst (build_theme sample_runtime (dict_update default_configuration [(''fps'', JInt 1)])
          (sample_world ''two seconds'')) = Inr ()
   \<and> fst (build_theme sample_runtime (dict_update default_configuration [(''fps'', JInt 1)])
          (snd (build_theme sample_runtime (dict_update default_configuration [(''fps'', JInt 1)])
                  (sample_world ''two seconds'')))) = Inr ()
   \<and> (\<exists>dt stx.
         fs (snd (build_theme sample_runtime (dict_update default_configuration [(''fps'', JInt 1)])
                  (sample_world ''two seconds''))) ''./build/custom.plymouth'' = Some (File dt)
       \<and> fs (snd (build_theme sample_runtime (dict_update default_configuration [(''fps'', JInt 1)])
          (snd (build_theme sample_runtime (dict_update default_configuration [(''fps'', JInt 1)])
                  (sample_world ''two seconds''))))) ''./build/custom.plymouth'' = Some (File dt)
       \<and> fs (snd (build_theme sample_runtime (dict_update default_configuration [(''fps'', JInt 1)])
                  (sample_world ''two seconds''))) ''./build/custom.script'' = Some (File stx)
       \<and> fs (snd (build_theme sample_runtime (dict_update default_configuration [(''fps'', JInt 1)])
          (snd (build_theme sample_runtime (dict_update default_configuration [(''fps'', JInt 1)])
                  (sample_world ''two seconds''))))) ''./build/custom.script'' = Some (File stx))"
proof -
  let ?cfg = "dict_update default_configuration [(''fps'', JInt 1)]"
  let ?w = "sample_world ''two seconds''"
  let ?w1 = "snd (build_theme sample_runtime ?cfg ?w)"
  let ?w2 = "snd (build_theme sample_runtime ?cfg ?w1)"
  have f1: "fst (build_theme sample_runtime ?cfg ?w) = Inr ()"
    using sample_run by (simp add: case_prod_beta)
  have f2: "fst (build_theme sample_runtime ?cfg ?w1) = Inr ()"
    using sample_rerun by (simp add: case_prod_beta)
  have a: "build_theme sample_runtime ?cfg ?w = (Inr (), ?w1)"
    using f1 by (simp add: prod_eq_iff)
  have b: "build_theme sample_runtime ?cfg ?w1 = (Inr (), ?w2)"
    using f2 by (simp add: prod_eq_iff)
  have c: "probed_duration sample_runtime ?cfg (fs ?w) = probed_duration sample_runtime ?cfg (fs ?w1)"
    using sample_rerun sample_probed by (simp add: case_prod_beta)
  from rerun_identical_files [OF a b c] obtain d s dt stx where
    "descriptor_path ?cfg = Inr d" "script_path ?cfg = Inr s"
    "fs ?w1 d = Some (File dt)" "fs ?w2 d = Some (File dt)"
    "fs ?w1 s = Some (File stx)" "fs ?w2 s = Some (File stx)"
    by blast
  with sample_paths have
    "fs ?w1 ''./build/custom.plymouth'' = Some (File dt)
     \<and> fs ?w2 ''./build/custom.plymouth'' = Some (File dt)
     \<and> fs ?w1 ''./build/custom.script'' = Some (File stx)
     \<and> fs ?w2 ''./build/custom.script'' = Some (File stx)"
    by simp
  then have "\<exists>dt stx. fs ?w1 ''./build/custom.plymouth'' = Some (File dt)
     \<and> fs ?w2 ''./build/custom.plymouth'' = Some (File dt)
     \<and> fs ?w1 ''./build/custom.script'' = Some (File stx)
     \<and> fs ?w2 ''./build/custom.script'' = Some (File stx)"
    by blast
  with f1 f2 show ?thesis
    by blast
qed

end
